theory Spec2Isabelle
  imports Main "HOL-Library.AList"
begin

section \<open>Python values and exceptions\<close>

text \<open>
  The values that travel through an option: \<^verbatim>\<open>None\<close>, booleans, integers and
  strings. Python's \<^verbatim>\<open>==\<close> between a value and a string literal is true only for
  the same string, which is equality on \<open>pyval\<close>.
\<close>

datatype pyval = PyNone | PyBool bool | PyInt int | PyStr string

datatype error = FlagMakerInputError | ValueError | TypeError | EOFError

subsection \<open>The builtin \<^verbatim>\<open>int()\<close>\<close>

text \<open>
  \<^verbatim>\<open>int(x)\<close> on a string reads a decimal literal: surrounding whitespace is
  dropped, one sign is allowed, and digits may be grouped by single underscores. Any
  other string raises ValueError, \<^verbatim>\<open>int(None)\<close> raises TypeError, a boolean
  is 0 or 1. Strings are ASCII here.
\<close>

definition is_digit :: "char \<Rightarrow> bool" where
  "is_digit c = (48 \<le> (of_char c :: nat) \<and> (of_char c :: nat) \<le> 57)"

definition digit_val :: "char \<Rightarrow> int" where
  "digit_val c = int (of_char c) - 48"

definition is_space :: "char \<Rightarrow> bool" where
  "is_space c = ((of_char c :: nat) = 32 \<or> (9 \<le> (of_char c :: nat) \<and> (of_char c :: nat) \<le> 13))"

definition strip :: "string \<Rightarrow> string" where
  "strip s = rev (dropWhile is_space (rev (dropWhile is_space s)))"

fun parse_digits :: "bool \<Rightarrow> int \<Rightarrow> string \<Rightarrow> int option" where
  "parse_digits prev acc [] = (if prev then Some acc else None)"
| "parse_digits prev acc (c # cs) =
     (if is_digit c then parse_digits True (10 * acc + digit_val c) cs
      else if c = CHR ''_'' \<and> prev \<and> cs \<noteq> [] then parse_digits False acc cs
      else None)"

definition int_of_str :: "string \<Rightarrow> int option" where
  "int_of_str s =
     (case strip s of
        [] \<Rightarrow> None
      | c # cs \<Rightarrow>
          if c = CHR ''-'' then map_option uminus (parse_digits False 0 cs)
          else if c = CHR ''+'' then parse_digits False 0 cs
          else parse_digits False 0 (c # cs))"

definition py_int :: "pyval \<Rightarrow> error + int" where
  "py_int v =
     (case v of
        PyNone \<Rightarrow> Inl TypeError
      | PyBool b \<Rightarrow> Inr (if b then 1 else 0)
      | PyInt i \<Rightarrow> Inr i
      | PyStr s \<Rightarrow> (case int_of_str s of None \<Rightarrow> Inl ValueError | Some i \<Rightarrow> Inr i))"

section \<open>flagmaker/settings.py: SettingOption\<close>

subsection \<open>The value cell\<close>

text \<open>
  The class \<^verbatim>\<open>Value\<close> of flagmaker.building_blocks is not among the sources; the
  spec describes it as a slot with a distinguishable unset state, which is the type
  \<open>pyval option\<close> with \<open>None\<close> for the unset cell.
\<close>

type_synonym value_cell = "pyval option"

text \<open>
  Modelled from the spec: \<^verbatim>\<open>Value()\<close> is missing from the sources; the cell is
  created unset at option construction.
\<close>

definition Value_init :: value_cell where
  "Value_init = None"

text \<open>
  Modelled from the spec: \<^verbatim>\<open>Value.set_val\<close> is missing from the sources; setting
  always succeeds and makes the cell explicitly set.
\<close>

definition set_val :: "pyval \<Rightarrow> value_cell \<Rightarrow> value_cell" where
  "set_val v c = Some v"

text \<open>
  Modelled from the spec: \<^verbatim>\<open>Value.get_val\<close> is missing from the sources; reading
  returns the stored value or the unset sentinel, \<^verbatim>\<open>None\<close>.
\<close>

definition get_val :: "value_cell \<Rightarrow> pyval" where
  "get_val c = (case c of None \<Rightarrow> PyNone | Some v \<Rightarrow> v)"

text \<open>
  Modelled from the spec: \<^verbatim>\<open>Value.__bool__\<close> is missing from the sources; the
  truth value of the cell says whether it was explicitly set, whatever it holds.
\<close>

definition Value_bool :: "value_cell \<Rightarrow> bool" where
  "Value_bool c = (c \<noteq> None)"

subsection \<open>The option: declaration and mutable state\<close>

text \<open>
  \<^verbatim>\<open>flags.DEFINE_bool\<close> is the same function object as
  \<^verbatim>\<open>flags.DEFINE_boolean\<close>, so one constructor stands for both.
\<close>

datatype flag_method =
  DEFINE_string | DEFINE_boolean | DEFINE_integer | DEFINE_float | DEFINE_enum | DEFINE_list

text \<open>
  The mutable part of an option and of the console it talks to: the cell
  \<^verbatim>\<open>__value\<close>, the flag \<^verbatim>\<open>__error\<close>, the lines still to be read by
  \<^verbatim>\<open>input\<close>, and what was printed (prompts and \<^verbatim>\<open>cprint\<close> notices). The
  field \<open>after_calls\<close> is a ghost log: the value each invocation of the post-set hook
  found in the cell.
\<close>

record setting_state =
  cell :: value_cell
  error_flag :: bool
  after_calls :: "pyval list"
  stdin :: "string list"
  stdout :: "string list"

text \<open>
  The attributes \<^verbatim>\<open>create\<close> fixes. The hooks are callables handed in by the
  application; here they read the option and return their verdict (the truth value
  of what the Python callable returns).
\<close>

record setting_decl =
  default_value :: pyval
  opt_method :: flag_method
  required :: bool
  validation :: "(setting_state \<Rightarrow> bool) option"
  after :: "(setting_state \<Rightarrow> bool) option"

definition SettingOption_init :: "string list \<Rightarrow> setting_state" where
  "SettingOption_init lines =
     \<lparr>cell = Value_init, error_flag = False, after_calls = [], stdin = lines, stdout = []\<rparr>"

definition value_explicitly_set :: "setting_state \<Rightarrow> bool" where
  "value_explicitly_set st = Value_bool (cell st)"

subsection \<open>The setter of the property \<^verbatim>\<open>value\<close>\<close>

text \<open>
  Lines 77 to 82 of the setter: store the value, then run the post-set hook if one
  is declared and keep the negation of its verdict in \<^verbatim>\<open>__error\<close>.
\<close>

definition commit :: "setting_decl \<Rightarrow> pyval \<Rightarrow> setting_state \<Rightarrow> setting_state" where
  "commit d v st =
     (let st1 = st\<lparr>cell := set_val v (cell st)\<rparr> in
      case after d of
        Some hook \<Rightarrow>
          st1\<lparr>error_flag := \<not> hook st1, after_calls := after_calls st1 @ [get_val (cell st1)]\<rparr>
      | None \<Rightarrow> st1\<lparr>error_flag := False\<rparr>)"

definition value_setter ::
  "setting_decl \<Rightarrow> pyval \<Rightarrow> setting_state \<Rightarrow> (error \<times> setting_state) + setting_state" where
  "value_setter d v st =
     (if opt_method d = DEFINE_boolean then
        (if v = PyStr ''1'' \<or> v = PyStr ''true'' then Inr (commit d (PyBool True) st)
         else if v = PyStr ''0'' \<or> v = PyStr ''false'' then Inr st
         else Inr (commit d v st))
      else if opt_method d = DEFINE_integer then
        (case py_int v of
           Inl e \<Rightarrow> Inl (e, st)
         | Inr i \<Rightarrow> Inr (commit d (PyInt i) st))
      else Inr (commit d v st))"

subsection \<open>\<^verbatim>\<open>set_value\<close>\<close>

text \<open>
  Modelled from the spec: \<^verbatim>\<open>Validator.validate\<close> of flagmaker.sanity is not among
  the sources. The spec calls it a pure predicate layer: the validation predicate,
  if one is declared, is run on the option.
\<close>

definition Validator_validate :: "setting_decl \<Rightarrow> setting_state \<Rightarrow> bool" where
  "Validator_validate d st = (case validation d of None \<Rightarrow> True | Some p \<Rightarrow> p st)"

definition num_opts :: "pyval \<Rightarrow> string \<Rightarrow> pyval \<Rightarrow> nat" where
  "num_opts v p i =
     (if v \<noteq> PyStr [] then 1 else 0) + (if p \<noteq> [] then 1 else 0) + (if i \<noteq> PyStr [] then 1 else 0)"

text \<open>
  One pass through the body of the loop either raises, or reaches
  \<^verbatim>\<open>continue\<close>, or goes on to validation.
\<close>

datatype flow = Continue | Proceed

text \<open>
  The interactive branch (lines 95 to 103). \<^verbatim>\<open>input\<close> prints the prompt and
  reads a line; at the end of the input it raises EOFError.
\<close>

definition prompt_branch ::
  "setting_decl \<Rightarrow> string \<Rightarrow> setting_state \<Rightarrow> (error \<times> setting_state) + (flow \<times> setting_state)" where
  "prompt_branch d p st =
     (case stdin st of
        [] \<Rightarrow> Inl (EOFError, st\<lparr>stdout := stdout st @ [p]\<rparr>)
      | val # rest \<Rightarrow>
          let st1 = st\<lparr>stdin := rest, stdout := stdout st @ [p]\<rparr> in
          case value_setter d
                 (if val = [] \<and> default_value d \<noteq> PyNone then default_value d else PyStr val) st1 of
            Inl e \<Rightarrow> Inl e
          | Inr st2 \<Rightarrow>
              if error_flag st2 then
                (case value_setter d PyNone st2 of
                   Inl e \<Rightarrow> Inl e
                 | Inr st3 \<Rightarrow> Inr (Continue, st3))
              else Inr (Proceed, st2))"

definition direct_branch ::
  "setting_decl \<Rightarrow> pyval \<Rightarrow> setting_state \<Rightarrow> (error \<times> setting_state) + (flow \<times> setting_state)" where
  "direct_branch d v st =
     (case value_setter d v st of
        Inl e \<Rightarrow> Inl e
      | Inr st1 \<Rightarrow> Inr (Proceed, st1))"

text \<open>
  The \<^verbatim>\<open>while True\<close> loop can run forever (a direct value that fails validation is
  assigned again and again), so the model counts iterations: \<open>None\<close> means that
  the given number of iterations did not reach a \<^verbatim>\<open>return\<close> or a
  \<^verbatim>\<open>raise\<close>.
\<close>

fun set_value ::
  "nat \<Rightarrow> setting_decl \<Rightarrow> pyval \<Rightarrow> string \<Rightarrow> pyval \<Rightarrow> setting_state
     \<Rightarrow> ((error \<times> setting_state) + setting_state) option" where
  "set_value 0 d v p i st = None"
| "set_value (Suc n) d v p i st =
     (if num_opts v p i \<noteq> 1 then Some (Inl (FlagMakerInputError, st))
      else if i = PyNone then Some (Inr st)
      else if i \<noteq> PyStr [] then Some (Inr (st\<lparr>cell := set_val i (cell st)\<rparr>))
      else
        (case (if p \<noteq> [] then prompt_branch d p st else direct_branch d v st) of
           Inl e \<Rightarrow> Some (Inl e)
         | Inr (Continue, st1) \<Rightarrow> set_value n d v p i st1
         | Inr (Proceed, st1) \<Rightarrow>
             if \<not> Validator_validate d st1 then set_value n d v p i st1
             else if value_explicitly_set st1 \<or> \<not> required d then Some (Inr st1)
             else set_value n d v p i (st1\<lparr>stdout := stdout st1 @ [''Required Field'']\<rparr>)))"

section \<open>csv_decoder.py: Decoder\<close>

subsection \<open>Strings\<close>

text \<open>
  \<^verbatim>\<open>str.lower\<close> follows the Unicode case tables. The decoder takes it as given
  (the field \<open>str_lower\<close> of its environment), and nothing proved below depends
  on what it does to a string. The worked examples need it on concrete labels:
  on text whose code points are all below 256, one character each, it is
  \<open>latin1_lower\<close>, which moves A to Z and the accented capitals from 0xC0 to 0xDE,
  the multiplication sign 0xD7 apart, up by 32 and keeps every other character.
  \<^verbatim>\<open>str.endswith\<close> compares the last characters, and \<open>string_of_nat\<close> is the
  decimal text \<^verbatim>\<open>format\<close> prints for a counter.
\<close>

definition latin1_lower_char :: "char \<Rightarrow> char" where
  "latin1_lower_char c =
     (let n = (of_char c :: nat)
      in if (65 \<le> n \<and> n \<le> 90) \<or> (192 \<le> n \<and> n \<le> 222 \<and> n \<noteq> 215) then char_of (n + 32) else c)"

definition latin1_lower :: "string \<Rightarrow> string" where
  "latin1_lower s = map latin1_lower_char s"

definition endswith :: "string \<Rightarrow> string \<Rightarrow> bool" where
  "endswith s suf = (length suf \<le> length s \<and> drop (length s - length suf) s = suf)"

fun string_of_nat :: "nat \<Rightarrow> string" where
  "string_of_nat n =
     (if n < 10 then [char_of (48 + n)]
      else string_of_nat (n div 10) @ [char_of (48 + n mod 10)])"

declare string_of_nat.simps [simp del]

subsection \<open>Frames, files and the decoder object\<close>

datatype out_type = SINGLE_FILE | SEPARATE_FILES

datatype dec_error = XLRDError | UnicodeError | OtherError

text \<open>
  A pandas frame is its column labels and its rows. Reading a file with pandas is
  outside the program: each file carries what \<^verbatim>\<open>read_excel\<close> does on it and what
  \<^verbatim>\<open>read_csv\<close> does on it under each encoding, which is a frame or an exception.
  \<open>OtherError\<close> stands for every exception that is neither XLRDError nor a Unicode
  error (an empty file, a missing column, an I/O failure).
\<close>

record dataframe =
  df_columns :: "string list"
  df_rows :: "string list list"

datatype read_result = Frame dataframe | Raises dec_error

text \<open>
  What \<^verbatim>\<open>ChooseyDecoder\<close> can find at a path: a directory with its listing in
  the order of \<^verbatim>\<open>os.listdir\<close>, or a file. A file carries its two pandas readings
  and, when \<^verbatim>\<open>tarfile.is_tarfile\<close> (third field) or \<^verbatim>\<open>zipfile.is_zipfile\<close>
  (fourth field) holds of it, the listing \<^verbatim>\<open>extractall\<close> produces.
\<close>

datatype fsnode =
  Dir "(string \<times> fsnode) list"
| File read_result "string \<Rightarrow> read_result" "(string \<times> fsnode) list option"
    "(string \<times> fsnode) list option"

text \<open>
  One call of \<^verbatim>\<open>to_csv\<close> that went through, with the arguments it was given:
  the path, \<^verbatim>\<open>header\<close>, \<^verbatim>\<open>mode\<close>, \<^verbatim>\<open>columns\<close> and the frame after the
  renaming. The field \<open>w_source\<close> is a ghost: the column labels the frame had when
  it was read, in the same positions.
\<close>

record csv_write =
  w_path :: string
  w_header :: bool
  w_mode :: string
  w_columns :: "string list"
  w_frame :: dataframe
  w_source :: "string list"

text \<open>
  The decoder object with the part of the world it acts on. The first eight fields
  are the attributes \<^verbatim>\<open>__init__\<close> sets (the dictionary \<^verbatim>\<open>map\<close> is an
  association list in insertion order); \<open>ticks\<close> counts the readings of the clock,
  \<open>scratch_dirs\<close> are the directories under \<^verbatim>\<open>/tmp\<close> that exist, and
  \<open>csv_reads\<close> and \<open>writes\<close> log the calls of \<^verbatim>\<open>read_csv\<close> (path and
  encoding) and the completed calls of \<^verbatim>\<open>to_csv\<close>, oldest first.
\<close>

record decoder =
  first :: bool
  dmap :: "(string \<times> string) list"
  out_type :: out_type
  desired_encoding :: string
  path :: string
  dest :: string
  file_count :: nat
  dir :: "string option"
  rows_opened :: nat
  ticks :: nat
  scratch_dirs :: "string list"
  csv_reads :: "(string \<times> string) list"
  writes :: "csv_write list"

text \<open>
  What the program takes from outside: the text the clock yields at each reading,
  whether a call of \<^verbatim>\<open>to_csv\<close> fails, and the builtin \<^verbatim>\<open>str.lower\<close>. Text
  that was decoded encodes again, so a failing \<^verbatim>\<open>to_csv\<close> raises no Unicode
  error; it raises \<open>OtherError\<close>.
\<close>

record env =
  clock :: "nat \<Rightarrow> string"
  to_csv_fails :: "csv_write \<Rightarrow> bool"
  str_lower :: "string \<Rightarrow> string"

type_synonym dec_result = "(dec_error \<times> decoder) + decoder"

definition Decoder_init ::
  "env \<Rightarrow> string \<Rightarrow> string \<Rightarrow> (string \<times> string) list \<Rightarrow> out_type \<Rightarrow> string \<Rightarrow> decoder" where
  "Decoder_init ev enc p dict_map ot dst =
     \<lparr>first = True,
      dmap = foldl (\<lambda>m (k, v). AList.update (str_lower ev k) v m) [] dict_map,
      out_type = ot, desired_encoding = enc, path = p, dest = dst, file_count = 0,
      dir = None, rows_opened = 0, ticks = 0, scratch_dirs = [], csv_reads = [], writes = []\<rparr>"

definition filename :: "decoder \<Rightarrow> string \<times> decoder" where
  "filename st =
     (if out_type st = SINGLE_FILE then (dest st, st)
      else (string_of_nat (file_count st + 1), st\<lparr>file_count := file_count st + 1\<rparr>))"

definition time :: "env \<Rightarrow> decoder \<Rightarrow> string \<times> decoder" where
  "time ev st = (clock ev (ticks st), st\<lparr>ticks := Suc (ticks st)\<rparr>)"

subsection \<open>FileDecoder\<close>

definition rename_columns ::
  "(string \<Rightarrow> string) \<Rightarrow> (string \<times> string) list \<Rightarrow> string \<Rightarrow> string" where
  "rename_columns lower m s =
     (let l = lower s in case map_of m l of Some c \<Rightarrow> c | None \<Rightarrow> l)"

text \<open>
  \<^verbatim>\<open>write\<close>: the one-shot flag is read and cleared, the columns are renamed in
  place, the row counter grows, the file name is taken (which counts in per-file
  mode), and then \<^verbatim>\<open>to_csv\<close> is called.
\<close>

definition FileDecoder_write :: "env \<Rightarrow> dataframe \<Rightarrow> decoder \<Rightarrow> dec_result" where
  "FileDecoder_write ev df st =
     (let doing_single_file = (out_type st = SINGLE_FILE);
          write_method = (if doing_single_file then ''a'' else ''w'');
          include_headers = (if doing_single_file then first st else True);
          st1 = (if doing_single_file \<and> first st then st\<lparr>first := False\<rparr> else st);
          df1 = df\<lparr>df_columns := map (rename_columns (str_lower ev) (dmap st1)) (df_columns df)\<rparr>;
          st2 = st1\<lparr>rows_opened := rows_opened st1 + length (df_rows df1)\<rparr>;
          (fname, st3) = filename st2;
          w = \<lparr>w_path = (case dir st3 of None \<Rightarrow> ''None'' | Some d \<Rightarrow> d) @ ''/'' @ fname,
               w_header = include_headers, w_mode = write_method,
               w_columns = map snd (dmap st3), w_frame = df1, w_source = df_columns df\<rparr>
      in if to_csv_fails ev w then Inl (OtherError, st3)
         else Inr (st3\<lparr>writes := writes st3 @ [w]\<rparr>))"

text \<open>
  \<^verbatim>\<open>decode_csv\<close>: the loop over the encodings. The body of the \<^verbatim>\<open>try\<close> reads
  and writes; a Unicode error is swallowed unless the encoding is latin-1, any other
  exception leaves the loop.
\<close>

definition csv_attempt ::
  "env \<Rightarrow> string \<Rightarrow> (string \<Rightarrow> read_result) \<Rightarrow> string \<Rightarrow> decoder \<Rightarrow> dec_result" where
  "csv_attempt ev p csv encoding st =
     (let st1 = st\<lparr>csv_reads := csv_reads st @ [(p, encoding)]\<rparr> in
      case csv encoding of
        Frame df \<Rightarrow> FileDecoder_write ev df st1
      | Raises e \<Rightarrow> Inl (e, st1))"

fun decode_csv_loop ::
  "env \<Rightarrow> string \<Rightarrow> (string \<Rightarrow> read_result) \<Rightarrow> string list \<Rightarrow> decoder \<Rightarrow> dec_result" where
  "decode_csv_loop ev p csv [] st = Inr st"
| "decode_csv_loop ev p csv (encoding # rest) st =
     (case csv_attempt ev p csv encoding st of
        Inr st1 \<Rightarrow> Inr st1
      | Inl (e, st1) \<Rightarrow>
          if e = UnicodeError then
            (if encoding = ''latin-1'' then Inl (e, st1) else decode_csv_loop ev p csv rest st1)
          else Inl (e, st1))"

definition decode_csv :: "env \<Rightarrow> string \<Rightarrow> (string \<Rightarrow> read_result) \<Rightarrow> decoder \<Rightarrow> dec_result" where
  "decode_csv ev p csv st = decode_csv_loop ev p csv [''utf-8'', ''utf-16'', ''latin-1''] st"

text \<open>
  \<^verbatim>\<open>decode_excel\<close>: the result of \<^verbatim>\<open>df.rename(columns=...)\<close> is dropped, so
  that line changes nothing. \<^verbatim>\<open>run\<close> falls back to \<^verbatim>\<open>decode_csv\<close> on
  XLRDError only.
\<close>

definition decode_excel :: "env \<Rightarrow> read_result \<Rightarrow> decoder \<Rightarrow> dec_result" where
  "decode_excel ev excel st =
     (case excel of
        Frame df \<Rightarrow> FileDecoder_write ev df st
      | Raises e \<Rightarrow> Inl (e, st))"

definition FileDecoder_run ::
  "env \<Rightarrow> string \<Rightarrow> read_result \<Rightarrow> (string \<Rightarrow> read_result) \<Rightarrow> decoder \<Rightarrow> dec_result" where
  "FileDecoder_run ev p excel csv st =
     (case decode_excel ev excel st of
        Inr st1 \<Rightarrow> Inr st1
      | Inl (e, st1) \<Rightarrow> if e = XLRDError then decode_csv ev p csv st1 else Inl (e, st1))"

subsection \<open>Directories and archives\<close>

text \<open>
  \<^verbatim>\<open>extractall\<close> writes each member of the archive under the directory and
  makes the directory on the way: an archive without members leaves no directory
  behind. \<^verbatim>\<open>rmtree\<close> fails on a directory that does not exist.
\<close>

definition extractall :: "string \<Rightarrow> (string \<times> fsnode) list \<Rightarrow> decoder \<Rightarrow> decoder" where
  "extractall d entries st =
     (if entries = [] then st else st\<lparr>scratch_dirs := List.insert d (scratch_dirs st)\<rparr>)"

definition rmtree :: "string \<Rightarrow> decoder \<Rightarrow> dec_result" where
  "rmtree d st =
     (if d \<in> set (scratch_dirs st) then Inr (st\<lparr>scratch_dirs := removeAll d (scratch_dirs st)\<rparr>)
      else Inl (OtherError, st))"

text \<open>
  The four \<^verbatim>\<open>run\<close> methods that call each other. The \<^verbatim>\<open>with\<close> block of an
  archive decoder closes the archive handle and nothing else; \<^verbatim>\<open>rmtree\<close> is the
  last statement of its body. \<^verbatim>\<open>DirectoryDecoder.run\<close> starts with
  \<^verbatim>\<open>os.listdir\<close>, which raises when the directory does not exist: that is the
  case of an extraction directory \<^verbatim>\<open>extractall\<close> did not make, and the archive
  decoders carry the test. Log messages are not part of the state.
\<close>

function ChooseyDecoder_run :: "env \<Rightarrow> string \<Rightarrow> fsnode \<Rightarrow> decoder \<Rightarrow> dec_result"
  and DirectoryDecoder_run :: "env \<Rightarrow> string \<Rightarrow> (string \<times> fsnode) list \<Rightarrow> decoder \<Rightarrow> dec_result"
  and TarfileDecoder_run :: "env \<Rightarrow> string \<Rightarrow> (string \<times> fsnode) list \<Rightarrow> decoder \<Rightarrow> dec_result"
  and ZipfileDecoder_run :: "env \<Rightarrow> string \<Rightarrow> (string \<times> fsnode) list \<Rightarrow> decoder \<Rightarrow> dec_result"
where
  "ChooseyDecoder_run ev p (Dir entries) st = DirectoryDecoder_run ev p entries st"
| "ChooseyDecoder_run ev p (File excel csv tar_listing zip_listing) st =
     (if endswith p ''.csv'' \<or> endswith p ''.xlsx'' then FileDecoder_run ev p excel csv st
      else case tar_listing of
        Some entries \<Rightarrow> TarfileDecoder_run ev p entries st
      | None \<Rightarrow>
         (case zip_listing of
            Some entries \<Rightarrow> ZipfileDecoder_run ev p entries st
          | None \<Rightarrow> Inr st))"
| "DirectoryDecoder_run ev p [] st = Inr st"
| "DirectoryDecoder_run ev p ((name, node) # entries) st =
     (case ChooseyDecoder_run ev (p @ ''/'' @ name) node st of
        Inl e \<Rightarrow> Inl e
      | Inr st1 \<Rightarrow> DirectoryDecoder_run ev p entries st1)"
| "TarfileDecoder_run ev p entries st =
     (let (t, st1) = time ev st;
          extraction_directory = ''/tmp/tar-output-'' @ t;
          st2 = extractall extraction_directory entries st1
      in if extraction_directory \<notin> set (scratch_dirs st2) then Inl (OtherError, st2)
         else
           (case DirectoryDecoder_run ev extraction_directory entries st2 of
              Inl e \<Rightarrow> Inl e
            | Inr st3 \<Rightarrow> rmtree extraction_directory st3))"
| "ZipfileDecoder_run ev p entries st =
     (let (t, st1) = time ev st;
          extraction_directory = ''/tmp/zip-output-'' @ t;
          st2 = extractall extraction_directory entries st1
      in if extraction_directory \<notin> set (scratch_dirs st2) then Inl (OtherError, st2)
         else
           (case DirectoryDecoder_run ev extraction_directory entries st2 of
              Inl e \<Rightarrow> Inl e
            | Inr st3 \<Rightarrow> rmtree extraction_directory st3))"
  by pat_completeness auto


termination
  apply (relation "measure (\<lambda>x. case x of
      Inl (Inl (ev, p, node, st)) \<Rightarrow> 2 * size node
    | Inl (Inr (ev, p, entries, st)) \<Rightarrow> 2 * size_list (size_prod (\<lambda>x. 0) size) entries
    | Inr (Inl (ev, p, entries, st)) \<Rightarrow> 2 * size_list (size_prod (\<lambda>x. 0) size) entries + 1
    | Inr (Inr (ev, p, entries, st)) \<Rightarrow> 2 * size_list (size_prod (\<lambda>x. 0) size) entries + 1)")
  apply simp_all
  done

text \<open>
  \<^verbatim>\<open>Decoder.run\<close> on the node found at \<^verbatim>\<open>self.path\<close>: the working directory
  is named after the clock and created (\<^verbatim>\<open>os.mkdir\<close> fails on an existing one),
  the dispatcher runs, and the output location is returned.
\<close>

definition Decoder_run :: "env \<Rightarrow> fsnode \<Rightarrow> decoder \<Rightarrow> (dec_error \<times> decoder) + (string \<times> decoder)" where
  "Decoder_run ev root st =
     (let (t, st1) = time ev st;
          d = ''/tmp/updir-'' @ t;
          st2 = st1\<lparr>dir := Some d\<rparr>
      in if d \<in> set (scratch_dirs st2) then Inl (OtherError, st2)
         else
           (case ChooseyDecoder_run ev (path st2) root (st2\<lparr>scratch_dirs := d # scratch_dirs st2\<rparr>) of
              Inl e \<Rightarrow> Inl e
            | Inr st3 \<Rightarrow>
                Inr (if out_type st3 \<noteq> SINGLE_FILE then d else d @ ''/'' @ dest st3, st3)))"

subsection \<open>Reading results\<close>

text \<open>
  The decoder as a call leaves it, whether it returned or raised, and the directory
  text \<^verbatim>\<open>format\<close> puts in front of an output file name.
\<close>

definition dec_state :: "dec_result \<Rightarrow> decoder" where
  "dec_state r = (case r of Inl (e, st) \<Rightarrow> st | Inr st \<Rightarrow> st)"

definition out_dir :: "decoder \<Rightarrow> string" where
  "out_dir st = (case dir st of None \<Rightarrow> ''None'' | Some d \<Rightarrow> d)"

subsection \<open>The writes of a merged run\<close>

text \<open>
  \<open>run_state\<close> is the decoder as \<^verbatim>\<open>Decoder.run\<close> leaves it, returned or raised.
  A log of writes is in order for a target file, a lowercasing and a map when its
  first entry carries the header, no later entry does, and every entry appends to
  the target, asks for exactly the values of the map and holds the frame with its
  source labels renamed. A decoder in merged mode is in order when,
  besides, its flag \<^verbatim>\<open>first\<close> is set exactly as long as nothing was written; a
  call that raised may have cleared the flag without a write, so after a raise only
  the log is looked at.
\<close>

definition run_state :: "(dec_error \<times> decoder) + (string \<times> decoder) \<Rightarrow> decoder" where
  "run_state r = (case r of Inl (e, st) \<Rightarrow> st | Inr (out, st) \<Rightarrow> st)"

text \<open>
  \<^verbatim>\<open>to_csv\<close> picks the columns of the frame by label: a column is written when
  its label is among those asked for. \<open>selected\<close> lists the columns of a write that
  are picked, each as the label it had in the source file and the label it is
  written under.
\<close>

definition selected :: "csv_write \<Rightarrow> (string \<times> string) list" where
  "selected w =
     filter (\<lambda>(s, l). l \<in> set (w_columns w)) (zip (w_source w) (df_columns (w_frame w)))"

definition writes_ok ::
  "string \<Rightarrow> (string \<Rightarrow> string) \<Rightarrow> (string \<times> string) list \<Rightarrow> csv_write list \<Rightarrow> bool" where
  "writes_ok target lw m ws =
     ((case ws of [] \<Rightarrow> True | w # rest \<Rightarrow> w_header w \<and> list_all (\<lambda>x. \<not> w_header x) rest) \<and>
      list_all (\<lambda>w. w_columns w = map snd m \<and> w_mode w = ''a'' \<and> w_path w = target \<and>
                  df_columns (w_frame w) = map (rename_columns lw m) (w_source w)) ws)"

definition merged_inv ::
  "string \<Rightarrow> (string \<Rightarrow> string) \<Rightarrow> (string \<times> string) list \<Rightarrow> decoder \<Rightarrow> bool" where
  "merged_inv target lw m st =
     (out_type st = SINGLE_FILE \<and> dmap st = m \<and>
      out_dir st @ ''/'' @ dest st = target \<and>
      (first st = (writes st = [])) \<and> writes_ok target lw m (writes st))"

definition merged_post ::
  "string \<Rightarrow> (string \<Rightarrow> string) \<Rightarrow> (string \<times> string) list \<Rightarrow> dec_result \<Rightarrow> bool" where
  "merged_post target lw m r =
     (case r of
        Inl (e, st) \<Rightarrow> writes_ok target lw m (writes st)
      | Inr st \<Rightarrow> merged_inv target lw m st)"

section \<open>flagmaker/settings.py: the attributes of the class and of its instances\<close>

text \<open>
  Where an attribute of an option lives. Python objects are addresses; an attribute
  holds a plain value, a flag method, a callable, or a reference to a dictionary or
  to a value cell. The store keeps the dictionaries, the value cells, the namespace
  of the class \<^verbatim>\<open>SettingOption\<close> and the attribute dictionary of each instance.
\<close>

datatype attr = Plain pyval | Method flag_method | Callable nat | DictRef nat | ValueRef nat

record heap =
  dict_objs :: "nat \<rightharpoonup> (string \<rightharpoonup> pyval)"
  value_objs :: "nat \<rightharpoonup> value_cell"
  class_attrs :: "string \<rightharpoonup> attr"
  instance_attrs :: "nat \<rightharpoonup> (string \<rightharpoonup> attr)"
  next_addr :: nat

text \<open>
  The store after the class body ran: each attribute of lines 15 to 25 is bound in
  the class namespace (the two names with double underscores mangled), and the
  dictionary literal of \<^verbatim>\<open>custom_data\<close> was evaluated once, at address 0.
\<close>

definition class_SettingOption :: heap where
  "class_SettingOption =
     \<lparr>dict_objs = [0 \<mapsto> Map.empty],
      value_objs = Map.empty,
      class_attrs =
        [''default'' \<mapsto> Plain PyNone, ''help'' \<mapsto> Plain PyNone, ''method'' \<mapsto> Plain PyNone,
         ''_SettingOption__value'' \<mapsto> Plain PyNone, ''required'' \<mapsto> Plain (PyBool False),
         ''validation'' \<mapsto> Plain PyNone, ''show'' \<mapsto> Plain PyNone, ''after'' \<mapsto> Plain PyNone,
         ''prompt'' \<mapsto> Plain PyNone, ''custom_data'' \<mapsto> DictRef 0,
         ''_SettingOption__error'' \<mapsto> Plain (PyBool False)],
      instance_attrs = Map.empty,
      next_addr = 1\<rparr>"

text \<open>
  Reading an attribute looks in the instance first and then in the class;
  assigning one binds it in the instance.
\<close>

definition getattr :: "heap \<Rightarrow> nat \<Rightarrow> string \<Rightarrow> attr option" where
  "getattr h obj name =
     (case instance_attrs h obj of
        None \<Rightarrow> None
      | Some d \<Rightarrow> (case d name of Some v \<Rightarrow> Some v | None \<Rightarrow> class_attrs h name))"

definition setattr :: "nat \<Rightarrow> string \<Rightarrow> attr \<Rightarrow> heap \<Rightarrow> heap" where
  "setattr obj name v h =
     h\<lparr>instance_attrs := (instance_attrs h)
         (obj \<mapsto> (case instance_attrs h obj of None \<Rightarrow> Map.empty | Some d \<Rightarrow> d)(name \<mapsto> v))\<rparr>"

text \<open>
  \<^verbatim>\<open>cls()\<close> with \<^verbatim>\<open>__init__\<close>: a new instance whose only attribute is a new
  value cell. \<^verbatim>\<open>create\<close> then assigns its eight arguments.
\<close>

definition SettingOption_new :: "heap \<Rightarrow> nat \<times> heap" where
  "SettingOption_new h =
     (let cell_addr = next_addr h; self = Suc (next_addr h)
      in (self,
          h\<lparr>value_objs := (value_objs h)(cell_addr \<mapsto> Value_init),
            instance_attrs := (instance_attrs h)(self \<mapsto> [''_SettingOption__value'' \<mapsto> ValueRef cell_addr]),
            next_addr := Suc (Suc (next_addr h))\<rparr>))"

record create_args =
  arg_helptext :: attr
  arg_default :: attr
  arg_method :: attr
  arg_required :: attr
  arg_validation :: attr
  arg_show :: attr
  arg_after :: attr
  arg_prompt :: attr

definition create :: "create_args \<Rightarrow> heap \<Rightarrow> nat \<times> heap" where
  "create args h =
     (let (fl, h1) = SettingOption_new h
      in (fl,
          setattr fl ''prompt'' (arg_prompt args)
           (setattr fl ''after'' (arg_after args)
             (setattr fl ''show'' (arg_show args)
               (setattr fl ''validation'' (arg_validation args)
                 (setattr fl ''required'' (arg_required args)
                   (setattr fl ''method'' (arg_method args)
                     (setattr fl ''help'' (arg_helptext args)
                       (setattr fl ''default'' (arg_default args) h1)))))))))"

fun creates :: "create_args list \<Rightarrow> heap \<Rightarrow> nat list \<times> heap" where
  "creates [] h = ([], h)"
| "creates (args # rest) h =
     (let (fl, h1) = create args h; (fls, h2) = creates rest h1 in (fl # fls, h2))"

text \<open>
  \<^verbatim>\<open>setting.custom_data[k] = v\<close> and \<^verbatim>\<open>setting.custom_data[k]\<close>, as the hooks
  of the application write them: the attribute is read, and the dictionary it refers
  to is updated or looked up. \<open>None\<close> is the exception (no such dictionary, no
  such key).
\<close>

definition custom_data_setitem :: "nat \<Rightarrow> string \<Rightarrow> pyval \<Rightarrow> heap \<Rightarrow> heap option" where
  "custom_data_setitem obj k v h =
     (case getattr h obj ''custom_data'' of
        Some (DictRef a) \<Rightarrow>
          (case dict_objs h a of
             Some m \<Rightarrow> Some (h\<lparr>dict_objs := (dict_objs h)(a \<mapsto> m(k \<mapsto> v))\<rparr>)
           | None \<Rightarrow> None)
      | _ \<Rightarrow> None)"

definition custom_data_getitem :: "nat \<Rightarrow> string \<Rightarrow> heap \<Rightarrow> pyval option" where
  "custom_data_getitem obj k h =
     (case getattr h obj ''custom_data'' of
        Some (DictRef a) \<Rightarrow> (case dict_objs h a of Some m \<Rightarrow> m k | None \<Rightarrow> None)
      | _ \<Rightarrow> None)"

section \<open>Properties of SettingOption\<close>

lemma int_of_str_abc: "int_of_str ''abc'' = None"
  by code_simp

lemma int_of_str_5: "int_of_str ''5'' = Some 5"
  by code_simp

lemma commit_cell: "cell (commit d v st) = Some v"
  by (cases "after d") (simp_all add: commit_def set_val_def Let_def)

lemma commit_no_hook:
  "after d = None \<Longrightarrow> commit d v st = st\<lparr>cell := Some v, error_flag := False\<rparr>"
  by (simp add: commit_def set_val_def)

lemma commit_hook:
  "after d = Some hook \<Longrightarrow>
     commit d v st = st\<lparr>cell := Some v, error_flag := \<not> hook (st\<lparr>cell := Some v\<rparr>),
       after_calls := after_calls st @ [v]\<rparr>"
  by (simp add: commit_def set_val_def get_val_def Let_def)

text \<open>
  Claim C1. On an option declared with the boolean method, assigning the raw string
  \<^verbatim>\<open>"0"\<close> or \<^verbatim>\<open>"false"\<close> returns at once: the whole state of the option is
  what it was, so no value is committed (an unset cell stays unset) and the post-set
  hook is not invoked. Assigning \<^verbatim>\<open>"1"\<close> or \<^verbatim>\<open>"true"\<close> commits the boolean
  \<^verbatim>\<open>True\<close>, and a declared post-set hook runs once, on the committed value, its
  verdict negated into the error flag.
\<close>

theorem boolean_false_short_circuits:
  assumes "opt_method d = DEFINE_boolean"
    and "v = PyStr ''0'' \<or> v = PyStr ''false''"
    and "w = PyStr ''1'' \<or> w = PyStr ''true''"
  shows "value_setter d v st = Inr st \<and>
    (\<exists>st'. value_setter d w st = Inr st' \<and>
       cell st' = Some (PyBool True) \<and> value_explicitly_set st' \<and>
       (case after d of
          None \<Rightarrow> after_calls st' = after_calls st
        | Some hook \<Rightarrow>
            after_calls st' = after_calls st @ [PyBool True] \<and>
            error_flag st' = (\<not> hook (st\<lparr>cell := Some (PyBool True)\<rparr>))))"
proof -
  from assms(1,2) have skip: "value_setter d v st = Inr st"
    unfolding value_setter_def by fastforce
  from assms(1,3) have set: "value_setter d w st = Inr (commit d (PyBool True) st)"
    unfolding value_setter_def by fastforce
  have hook: "case after d of
      None \<Rightarrow> after_calls (commit d (PyBool True) st) = after_calls st
    | Some hook \<Rightarrow>
        after_calls (commit d (PyBool True) st) = after_calls st @ [PyBool True] \<and>
        error_flag (commit d (PyBool True) st) = (\<not> hook (st\<lparr>cell := Some (PyBool True)\<rparr>))"
  proof (cases "after d")
    case None
    then show ?thesis by (simp add: commit_no_hook)
  next
    case (Some h)
    then show ?thesis by (simp add: commit_hook)
  qed
  have "value_explicitly_set (commit d (PyBool True) st)"
    by (simp add: value_explicitly_set_def Value_bool_def commit_cell)
  with skip set hook show ?thesis
    by (simp add: commit_cell)
qed

theorem boolean_false_short_circuits_witness:
  "value_setter \<lparr>default_value = PyNone, opt_method = DEFINE_boolean, required = True,
       validation = None, after = Some (\<lambda>s. True)\<rparr> (PyStr ''0'') (SettingOption_init [])
     = Inr (SettingOption_init []) \<and>
   \<not> value_explicitly_set (SettingOption_init []) \<and>
   (\<exists>st'. value_setter \<lparr>default_value = PyNone, opt_method = DEFINE_boolean, required = True,
       validation = None, after = Some (\<lambda>s. True)\<rparr> (PyStr ''1'') (SettingOption_init []) = Inr st' \<and>
      cell st' = Some (PyBool True) \<and> after_calls st' = [PyBool True] \<and> \<not> error_flag st')"
proof -
  let ?d = "\<lparr>default_value = PyNone, opt_method = DEFINE_boolean, required = True,
       validation = None, after = Some (\<lambda>s. True)\<rparr>"
  have m: "opt_method ?d = DEFINE_boolean" by simp
  have u: "\<not> value_explicitly_set (SettingOption_init [])"
    by (simp add: SettingOption_init_def value_explicitly_set_def Value_bool_def Value_init_def)
  have a: "after_calls (SettingOption_init []) = []"
    by (simp add: SettingOption_init_def)
  from boolean_false_short_circuits [OF m, of "PyStr ''0''" "PyStr ''1''" "SettingOption_init []"]
  obtain st' where
    "value_setter ?d (PyStr ''0'') (SettingOption_init []) = Inr (SettingOption_init [])"
    "value_setter ?d (PyStr ''1'') (SettingOption_init []) = Inr st'"
    "cell st' = Some (PyBool True)" "after_calls st' = [PyBool True]" "\<not> error_flag st'"
    by (auto simp: a)
  with u show ?thesis by blast
qed

text \<open>
  Claim C2 at an integer option whose post-set hook rejects the value. The line
  \<^verbatim>\<open>5\<close> is committed, the hook fails, and the unwinding assignment of
  \<^verbatim>\<open>None\<close> goes through the setter, where \<^verbatim>\<open>int(None)\<close> raises TypeError:
  the call ends in that error with the value 5 still in the cell, and the next line
  is never asked for.
\<close>

theorem failed_hook_unwind_integer_raises:
  "set_value (Suc n) \<lparr>default_value = PyNone, opt_method = DEFINE_integer, required = True,
       validation = None, after = Some (\<lambda>s. False)\<rparr> (PyStr []) ''p'' (PyStr []) (SettingOption_init [''5'', ''6''])
     = Some (Inl (TypeError,
         \<lparr>cell = Some (PyInt 5), error_flag = True, after_calls = [PyInt 5], stdin = [''6''], stdout = [''p'']\<rparr>))"
  by (simp add: num_opts_def prompt_branch_def value_setter_def py_int_def int_of_str_5 commit_def Let_def
      set_val_def get_val_def SettingOption_init_def Value_init_def)

text \<open>
  Claim C4. When the number of supplied inputs among direct value, prompt and init
  is not exactly one (none, or two or more), \<^verbatim>\<open>set_value\<close> raises
  FlagMakerInputError in its first iteration and the state of the option is the one
  it was called with: nothing has been assigned.
\<close>

theorem set_value_needs_one_source:
  assumes "num_opts v p i \<noteq> 1"
  shows "set_value (Suc n) d v p i st = Some (Inl (FlagMakerInputError, st))"
  using assms by simp

theorem set_value_needs_one_source_witness:
  "num_opts (PyStr []) [] (PyStr []) = 0 \<and> num_opts (PyStr ''x'') ''p'' (PyStr []) = 2 \<and>
   num_opts (PyStr ''x'') [] PyNone = 2 \<and>
   set_value (Suc 0) \<lparr>default_value = PyNone, opt_method = DEFINE_string, required = True,
       validation = None, after = None\<rparr> (PyStr []) [] (PyStr []) (SettingOption_init [])
     = Some (Inl (FlagMakerInputError, SettingOption_init [])) \<and>
   set_value (Suc 0) \<lparr>default_value = PyNone, opt_method = DEFINE_string, required = True,
       validation = None, after = None\<rparr> (PyStr ''x'') ''p'' (PyStr []) (SettingOption_init [''y''])
     = Some (Inl (FlagMakerInputError, SettingOption_init [''y'']))"
  using set_value_needs_one_source [of "PyStr []" "[]" "PyStr []" 0
      "\<lparr>default_value = PyNone, opt_method = DEFINE_string, required = True,
       validation = None, after = None\<rparr>" "SettingOption_init []"]
    set_value_needs_one_source [of "PyStr ''x''" "''p''" "PyStr []" 0
      "\<lparr>default_value = PyNone, opt_method = DEFINE_string, required = True,
       validation = None, after = None\<rparr>" "SettingOption_init [''y'']"]
  by (simp add: num_opts_def)

text \<open>
  Claim C5, as the code has it. On an option declared with the integer method, a
  line read at the prompt that is no decimal literal makes the setter raise
  ValueError. \<^verbatim>\<open>set_value\<close> has no handler: the error leaves the loop at once,
  with the prompt shown once, the line consumed, no value committed, no hook run,
  nothing further printed and no second prompt.
\<close>

theorem integer_parse_error_propagates:
  assumes "opt_method d = DEFINE_integer" and "p \<noteq> []" and "stdin st = val # rest"
    and "val \<noteq> [] \<or> default_value d = PyNone" and "int_of_str val = None"
  shows "set_value (Suc n) d (PyStr []) p (PyStr []) st =
     Some (Inl (ValueError, st\<lparr>stdin := rest, stdout := stdout st @ [p]\<rparr>))"
  using assms
  by (auto simp: num_opts_def prompt_branch_def value_setter_def py_int_def)

theorem integer_parse_error_propagates_witness:
  "set_value (Suc 0) \<lparr>default_value = PyInt 3, opt_method = DEFINE_integer, required = True,
       validation = None, after = None\<rparr> (PyStr []) ''p'' (PyStr []) (SettingOption_init [''abc'', ''7''])
     = Some (Inl (ValueError,
         \<lparr>cell = None, error_flag = False, after_calls = [], stdin = [''7''], stdout = [''p'']\<rparr>))"
  using integer_parse_error_propagates [of "\<lparr>default_value = PyInt 3, opt_method = DEFINE_integer, required = True,
       validation = None, after = None\<rparr>" "''p''" "SettingOption_init [''abc'', ''7'']" "''abc''" "[''7'']" 0]
  by (simp add: SettingOption_init_def Value_init_def int_of_str_abc)

text \<open>
  Claim C5 as stated fails: with the lines \<^verbatim>\<open>abc\<close> and \<^verbatim>\<open>7\<close> waiting on the
  console, the call does not retry the prompt and read \<^verbatim>\<open>7\<close>; it ends in
  ValueError after the first line, and nothing but the prompt was printed.
\<close>

theorem integer_parse_error_counterexample:
  "set_value (Suc 9) \<lparr>default_value = PyNone, opt_method = DEFINE_integer, required = True,
       validation = None, after = None\<rparr> (PyStr []) ''p'' (PyStr []) (SettingOption_init [''abc'', ''7''])
     = Some (Inl (ValueError,
         \<lparr>cell = None, error_flag = False, after_calls = [], stdin = [''7''], stdout = [''p'']\<rparr>))"
  by (subst set_value.simps)
    (simp add: num_opts_def prompt_branch_def value_setter_def py_int_def int_of_str_abc
      SettingOption_init_def Value_init_def)

text \<open>
  Claim C6. In programmatic-init mode an init of \<^verbatim>\<open>None\<close> returns with the state
  untouched (an unset cell stays unset), and any other supplied init is stored into
  the cell as it is: whatever the method, the hook and the validation predicate of
  the option are, only the cell changes, so no coercion, no hook and no validation
  took place.
\<close>

theorem programmatic_init_bypasses:
  "set_value (Suc n) d (PyStr []) [] PyNone st = Some (Inr st) \<and>
   (i \<noteq> PyNone \<and> i \<noteq> PyStr [] \<longrightarrow>
      set_value (Suc n) d (PyStr []) [] i st = Some (Inr (st\<lparr>cell := Some i\<rparr>)))"
  by (simp add: num_opts_def set_val_def)

theorem programmatic_init_bypasses_witness:
  "set_value (Suc 0) \<lparr>default_value = PyNone, opt_method = DEFINE_integer, required = True,
       validation = Some (\<lambda>s. False), after = Some (\<lambda>s. False)\<rparr> (PyStr []) [] PyNone (SettingOption_init [])
     = Some (Inr (SettingOption_init [])) \<and>
   \<not> value_explicitly_set (SettingOption_init []) \<and>
   set_value (Suc 0) \<lparr>default_value = PyNone, opt_method = DEFINE_integer, required = True,
       validation = Some (\<lambda>s. False), after = Some (\<lambda>s. False)\<rparr> (PyStr []) [] (PyStr ''abc'') (SettingOption_init [])
     = Some (Inr \<lparr>cell = Some (PyStr ''abc''), error_flag = False, after_calls = [], stdin = [], stdout = []\<rparr>)"
  using programmatic_init_bypasses [of 0 "\<lparr>default_value = PyNone, opt_method = DEFINE_integer, required = True,
       validation = Some (\<lambda>s. False), after = Some (\<lambda>s. False)\<rparr>" "SettingOption_init []" "PyStr ''abc''"]
  by (simp add: SettingOption_init_def value_explicitly_set_def Value_bool_def Value_init_def)

section \<open>Properties of the Decoder\<close>

subsection \<open>What \<^verbatim>\<open>write\<close> does in each mode\<close>

lemma write_single_first:
  assumes "out_type st = SINGLE_FILE" and "first st"
  shows "FileDecoder_write ev df st =
     (if to_csv_fails ev \<lparr>w_path = out_dir st @ ''/'' @ dest st, w_header = True, w_mode = ''a'',
            w_columns = map snd (dmap st),
            w_frame = df\<lparr>df_columns := map (rename_columns (str_lower ev) (dmap st)) (df_columns df)\<rparr>,
            w_source = df_columns df\<rparr>
      then Inl (OtherError, st\<lparr>first := False, rows_opened := rows_opened st + length (df_rows df)\<rparr>)
      else Inr (st\<lparr>first := False, rows_opened := rows_opened st + length (df_rows df),
             writes := writes st @ [\<lparr>w_path = out_dir st @ ''/'' @ dest st, w_header = True, w_mode = ''a'',
               w_columns = map snd (dmap st),
               w_frame = df\<lparr>df_columns := map (rename_columns (str_lower ev) (dmap st)) (df_columns df)\<rparr>,
            w_source = df_columns df\<rparr>]\<rparr>))"
  using assms by (simp add: FileDecoder_write_def filename_def Let_def out_dir_def)

lemma write_single_later:
  assumes "out_type st = SINGLE_FILE" and "\<not> first st"
  shows "FileDecoder_write ev df st =
     (if to_csv_fails ev \<lparr>w_path = out_dir st @ ''/'' @ dest st, w_header = False, w_mode = ''a'',
            w_columns = map snd (dmap st),
            w_frame = df\<lparr>df_columns := map (rename_columns (str_lower ev) (dmap st)) (df_columns df)\<rparr>,
            w_source = df_columns df\<rparr>
      then Inl (OtherError, st\<lparr>rows_opened := rows_opened st + length (df_rows df)\<rparr>)
      else Inr (st\<lparr>rows_opened := rows_opened st + length (df_rows df),
             writes := writes st @ [\<lparr>w_path = out_dir st @ ''/'' @ dest st, w_header = False, w_mode = ''a'',
               w_columns = map snd (dmap st),
               w_frame = df\<lparr>df_columns := map (rename_columns (str_lower ev) (dmap st)) (df_columns df)\<rparr>,
            w_source = df_columns df\<rparr>]\<rparr>))"
  using assms by (simp add: FileDecoder_write_def filename_def Let_def out_dir_def)

lemma write_separate:
  assumes "out_type st \<noteq> SINGLE_FILE"
  shows "FileDecoder_write ev df st =
     (if to_csv_fails ev \<lparr>w_path = out_dir st @ ''/'' @ string_of_nat (file_count st + 1),
            w_header = True, w_mode = ''w'', w_columns = map snd (dmap st),
            w_frame = df\<lparr>df_columns := map (rename_columns (str_lower ev) (dmap st)) (df_columns df)\<rparr>,
            w_source = df_columns df\<rparr>
      then Inl (OtherError, st\<lparr>rows_opened := rows_opened st + length (df_rows df),
             file_count := file_count st + 1\<rparr>)
      else Inr (st\<lparr>rows_opened := rows_opened st + length (df_rows df),
             file_count := file_count st + 1,
             writes := writes st @ [\<lparr>w_path = out_dir st @ ''/'' @ string_of_nat (file_count st + 1),
               w_header = True, w_mode = ''w'', w_columns = map snd (dmap st),
               w_frame = df\<lparr>df_columns := map (rename_columns (str_lower ev) (dmap st)) (df_columns df)\<rparr>,
            w_source = df_columns df\<rparr>]\<rparr>))"
  using assms by (simp add: FileDecoder_write_def filename_def Let_def out_dir_def del: string_of_nat.simps)


lemma dec_state_simps [simp]: "dec_state (Inl (e, st)) = st" "dec_state (Inr st) = st"
  by (simp_all add: dec_state_def)

lemma write_error: "FileDecoder_write ev df st = Inl (e, st') \<Longrightarrow> e = OtherError"
proof (cases "out_type st = SINGLE_FILE")
  case True
  assume a: "FileDecoder_write ev df st = Inl (e, st')"
  show ?thesis
  proof (cases "first st")
    case f: True
    from a show ?thesis unfolding write_single_first [OF True f] by (simp split: if_splits)
  next
    case f: False
    from a show ?thesis unfolding write_single_later [OF True f] by (simp split: if_splits)
  qed
next
  case False
  assume a: "FileDecoder_write ev df st = Inl (e, st')"
  then show ?thesis unfolding write_separate [OF False] by (simp split: if_splits)
qed

lemma write_csv_reads: "csv_reads (dec_state (FileDecoder_write ev df st)) = csv_reads st"
proof (cases "out_type st = SINGLE_FILE")
  case True
  show ?thesis
  proof (cases "first st")
    case f: True
    show ?thesis unfolding write_single_first [OF True f] by simp
  next
    case f: False
    show ?thesis unfolding write_single_later [OF True f] by simp
  qed
next
  case False
  then show ?thesis unfolding write_separate [OF False] by simp
qed

lemma write_frame_columns:
  assumes "FileDecoder_write ev df st = Inr st'"
  shows "df_columns (w_frame (last (writes st'))) =
           map (rename_columns (str_lower ev) (dmap st)) (df_columns df)"
proof (cases "out_type st = SINGLE_FILE")
  case True
  show ?thesis
  proof (cases "first st")
    case f: True
    from assms show ?thesis unfolding write_single_first [OF True f] by (auto split: if_splits)
  next
    case f: False
    from assms show ?thesis unfolding write_single_later [OF True f] by (auto split: if_splits)
  qed
next
  case False
  from assms show ?thesis unfolding write_separate [OF False] by (auto split: if_splits)
qed

lemma attempt_ok:
  assumes "csv enc \<noteq> Raises UnicodeError"
  shows "decode_csv_loop ev p csv (enc # rest) st = csv_attempt ev p csv enc st"
proof (cases "csv enc")
  case (Frame df)
  show ?thesis
  proof (cases "FileDecoder_write ev df (st\<lparr>csv_reads := csv_reads st @ [(p, enc)]\<rparr>)")
    case (Inl x)
    obtain e s where x: "x = (e, s)" by (cases x)
    from Inl x write_error have "e = OtherError" by blast
    with Inl x Frame show ?thesis by (simp add: csv_attempt_def)
  next
    case (Inr s)
    with Frame show ?thesis by (simp add: csv_attempt_def)
  qed
next
  case (Raises e)
  with assms show ?thesis by (simp add: csv_attempt_def)
qed

lemma attempt_unicode:
  assumes "csv enc = Raises UnicodeError"
  shows "decode_csv_loop ev p csv (enc # rest) st =
     (if enc = ''latin-1'' then Inl (UnicodeError, st\<lparr>csv_reads := csv_reads st @ [(p, enc)]\<rparr>)
      else decode_csv_loop ev p csv rest (st\<lparr>csv_reads := csv_reads st @ [(p, enc)]\<rparr>))"
  using assms by (simp add: csv_attempt_def)

lemma attempt_csv_reads:
  "csv_reads (dec_state (csv_attempt ev p csv enc st)) = csv_reads st @ [(p, enc)]"
  by (cases "csv enc") (simp_all add: csv_attempt_def write_csv_reads)


subsection \<open>The encoding fallback\<close>

text \<open>
  Claim C7. \<^verbatim>\<open>decode_csv\<close> reads with utf-8, then utf-16, then latin-1. The first
  encoding whose reading raises no Unicode error decides the call: what that attempt
  does (write the frame, or raise another exception) is what \<^verbatim>\<open>decode_csv\<close> does,
  after exactly the readings up to that encoding and none after it. When all three
  readings raise a Unicode error, the call raises it, after the three readings.
\<close>

theorem decode_csv_encoding_order:
  "decode_csv ev p csv st =
     (if csv ''utf-8'' \<noteq> Raises UnicodeError then csv_attempt ev p csv ''utf-8'' st
      else if csv ''utf-16'' \<noteq> Raises UnicodeError then
        csv_attempt ev p csv ''utf-16'' (st\<lparr>csv_reads := csv_reads st @ [(p, ''utf-8'')]\<rparr>)
      else if csv ''latin-1'' \<noteq> Raises UnicodeError then
        csv_attempt ev p csv ''latin-1''
          (st\<lparr>csv_reads := csv_reads st @ [(p, ''utf-8''), (p, ''utf-16'')]\<rparr>)
      else Inl (UnicodeError,
        st\<lparr>csv_reads := csv_reads st @ [(p, ''utf-8''), (p, ''utf-16''), (p, ''latin-1'')]\<rparr>)) \<and>
   csv_reads (dec_state (decode_csv ev p csv st)) =
     csv_reads st @ map (Pair p)
       (if csv ''utf-8'' \<noteq> Raises UnicodeError then [''utf-8'']
        else if csv ''utf-16'' \<noteq> Raises UnicodeError then [''utf-8'', ''utf-16'']
        else [''utf-8'', ''utf-16'', ''latin-1''])"
proof -
  consider (a) "csv ''utf-8'' \<noteq> Raises UnicodeError"
    | (b) "csv ''utf-8'' = Raises UnicodeError" "csv ''utf-16'' \<noteq> Raises UnicodeError"
    | (c) "csv ''utf-8'' = Raises UnicodeError" "csv ''utf-16'' = Raises UnicodeError"
        "csv ''latin-1'' \<noteq> Raises UnicodeError"
    | (d) "csv ''utf-8'' = Raises UnicodeError" "csv ''utf-16'' = Raises UnicodeError"
        "csv ''latin-1'' = Raises UnicodeError"
    by blast
  then show ?thesis
  proof cases
    case a
    then show ?thesis by (simp add: decode_csv_def attempt_ok attempt_csv_reads del: decode_csv_loop.simps)
  next
    case b
    then show ?thesis
      by (simp add: decode_csv_def attempt_ok attempt_unicode attempt_csv_reads del: decode_csv_loop.simps)
  next
    case c
    then show ?thesis
      by (simp add: decode_csv_def attempt_ok attempt_unicode attempt_csv_reads del: decode_csv_loop.simps)
  next
    case d
    then show ?thesis by (simp add: decode_csv_def attempt_unicode del: decode_csv_loop.simps)
  qed
qed

subsection \<open>Renaming the columns\<close>

lemma map_of_init_map:
  "map_of (foldl (\<lambda>m (k, v). AList.update (lw k) v m) acc xs) =
     foldl (\<lambda>f (k, v). f(lw k \<mapsto> v)) (map_of acc) xs"
  by (induction xs arbitrary: acc) (auto simp: update_conv')

lemma foldl_upd_notin:
  "l \<notin> (\<lambda>(k, v). lw k) ` set xs \<Longrightarrow> foldl (\<lambda>f (k, v). f(lw k \<mapsto> v)) f xs l = f l"
  by (induction xs arbitrary: f) auto

lemma foldl_upd_in:
  "distinct (map (\<lambda>(k, v). lw k) xs) \<Longrightarrow> (k, c) \<in> set xs \<Longrightarrow>
     foldl (\<lambda>f (k, v). f(lw k \<mapsto> v)) f xs (lw k) = Some c"
proof (induction xs arbitrary: f)
  case Nil
  then show ?case by simp
next
  case (Cons x xs)
  show ?case
  proof (cases "(k, c) = x")
    case True
    with Cons.prems have notin: "lw k \<notin> (\<lambda>(k, v). lw k) ` set xs" by auto
    have "foldl (\<lambda>f (k, v). f(lw k \<mapsto> v)) (f(lw k \<mapsto> c)) xs (lw k) =
        (f(lw k \<mapsto> c)) (lw k)"
      using notin by (rule foldl_upd_notin)
    then have h: "foldl (\<lambda>f (k, v). f(lw k \<mapsto> v)) (f(lw k \<mapsto> c)) xs (lw k) = Some c"
      by simp
    show ?thesis
      by (simp only: True [symmetric] foldl_Cons prod.case) (rule h)
  next
    case False
    with Cons.prems have "(k, c) \<in> set xs" "distinct (map (\<lambda>(k, v). lw k) xs)" by auto
    from Cons.IH [OF this(2) this(1)] show ?thesis by simp
  qed
qed

lemma lower_Extra: "latin1_lower ''Extra'' = ''extra''"
  by code_simp

lemma lower_Name: "latin1_lower ''Name'' = ''name''"
  by code_simp

lemma lower_NAME: "latin1_lower ''NAME'' = ''name''"
  by code_simp

lemma lower_CAFE_acute: "latin1_lower [CHR ''C'', CHR ''A'', CHR ''F'', CHR 0xC9] = [CHR ''c'', CHR ''a'', CHR ''f'', CHR 0xE9]"
  by code_simp

lemma lower_Cafe_acute: "latin1_lower [CHR ''C'', CHR ''a'', CHR ''f'', CHR 0xE9] = [CHR ''c'', CHR ''a'', CHR ''f'', CHR 0xE9]"
  by code_simp

text \<open>
  Claim C3, as the code has it. Whatever the lowercasing does, with the map
  \<^verbatim>\<open>__init__\<close> builds from a dictionary whose keys stay distinct when lowercased,
  \<^verbatim>\<open>rename_columns\<close> sends a column whose lowercased name is a lowercased key to
  that key's canonical name, and sends every other column to its lowercased name:
  an unmapped column loses its casing. The frame \<^verbatim>\<open>write\<close> hands to
  \<^verbatim>\<open>to_csv\<close> carries the columns renamed this way.
\<close>

theorem rename_columns_lowercases_unmapped:
  assumes "distinct (map (\<lambda>(k, v). str_lower ev k) dict_map)"
  shows "((k, c) \<in> set dict_map \<and> str_lower ev s = str_lower ev k \<longrightarrow>
           rename_columns (str_lower ev) (dmap (Decoder_init ev enc p dict_map ot dst)) s = c) \<and>
         (str_lower ev s \<notin> (\<lambda>(k, v). str_lower ev k) ` set dict_map \<longrightarrow>
           rename_columns (str_lower ev) (dmap (Decoder_init ev enc p dict_map ot dst)) s = str_lower ev s) \<and>
         (FileDecoder_write ev df st = Inr st' \<longrightarrow>
           df_columns (w_frame (last (writes st'))) =
             map (rename_columns (str_lower ev) (dmap st)) (df_columns df))"
proof -
  have m: "map_of (dmap (Decoder_init ev enc p dict_map ot dst)) =
      foldl (\<lambda>f (k, v). f(str_lower ev k \<mapsto> v)) Map.empty dict_map"
    by (simp add: Decoder_init_def map_of_init_map)
  have a: "rename_columns (str_lower ev) (dmap (Decoder_init ev enc p dict_map ot dst)) s = c"
    if "(k, c) \<in> set dict_map" "str_lower ev s = str_lower ev k"
    using foldl_upd_in [of "str_lower ev", OF assms that(1), of Map.empty] that(2)
    by (simp add: rename_columns_def m)
  have b: "rename_columns (str_lower ev) (dmap (Decoder_init ev enc p dict_map ot dst)) s = str_lower ev s"
    if "str_lower ev s \<notin> (\<lambda>(k, v). str_lower ev k) ` set dict_map"
    using foldl_upd_notin [of "str_lower ev s" "str_lower ev", OF that, of Map.empty]
    by (simp add: rename_columns_def m)
  from a b write_frame_columns show ?thesis by blast
qed

theorem rename_columns_lowercases_unmapped_witness:
  "rename_columns latin1_lower
     (dmap (Decoder_init \<lparr>clock = (\<lambda>n. ''0''), to_csv_fails = (\<lambda>w. False), str_lower = latin1_lower\<rparr>
        ''utf-8'' ''in''
        [(''Name'', ''account_name''), ([CHR ''C'', CHR ''A'', CHR ''F'', CHR 0xC9], ''coffee'')]
        SINGLE_FILE ''out.csv'')) ''NAME''
     = ''account_name'' \<and>
   rename_columns latin1_lower
     (dmap (Decoder_init \<lparr>clock = (\<lambda>n. ''0''), to_csv_fails = (\<lambda>w. False), str_lower = latin1_lower\<rparr>
        ''utf-8'' ''in''
        [(''Name'', ''account_name''), ([CHR ''C'', CHR ''A'', CHR ''F'', CHR 0xC9], ''coffee'')]
        SINGLE_FILE ''out.csv'')) [CHR ''C'', CHR ''a'', CHR ''f'', CHR 0xE9]
     = ''coffee'' \<and>
   rename_columns latin1_lower
     (dmap (Decoder_init \<lparr>clock = (\<lambda>n. ''0''), to_csv_fails = (\<lambda>w. False), str_lower = latin1_lower\<rparr>
        ''utf-8'' ''in''
        [(''Name'', ''account_name''), ([CHR ''C'', CHR ''A'', CHR ''F'', CHR 0xC9], ''coffee'')]
        SINGLE_FILE ''out.csv'')) ''Extra''
     = ''extra''"
proof -
  let ?ev = "\<lparr>clock = (\<lambda>n. ''0''), to_csv_fails = (\<lambda>w. False), str_lower = latin1_lower\<rparr>"
  let ?dm = "[(''Name'', ''account_name''), ([CHR ''C'', CHR ''A'', CHR ''F'', CHR 0xC9], ''coffee'')]"
  have d: "distinct (map (\<lambda>(k, v). str_lower ?ev k) ?dm)"
    by (simp add: lower_Name lower_CAFE_acute)
  note t = rename_columns_lowercases_unmapped [OF d]
  from t [of "''Name''" "''account_name''" "''NAME''" "''utf-8''" "''in''" SINGLE_FILE "''out.csv''"]
  have 1: "rename_columns latin1_lower (dmap (Decoder_init ?ev ''utf-8'' ''in'' ?dm SINGLE_FILE ''out.csv'')) ''NAME''
     = ''account_name''"
    by (simp add: lower_Name lower_NAME)
  from t [of "[CHR ''C'', CHR ''A'', CHR ''F'', CHR 0xC9]" "''coffee''" "[CHR ''C'', CHR ''a'', CHR ''f'', CHR 0xE9]"
      "''utf-8''" "''in''" SINGLE_FILE "''out.csv''"]
  have 2: "rename_columns latin1_lower (dmap (Decoder_init ?ev ''utf-8'' ''in'' ?dm SINGLE_FILE ''out.csv''))
      [CHR ''C'', CHR ''a'', CHR ''f'', CHR 0xE9] = ''coffee''"
    by (simp add: lower_CAFE_acute lower_Cafe_acute)
  from t [of _ _ "''Extra''" "''utf-8''" "''in''" SINGLE_FILE "''out.csv''"]
  have 3: "rename_columns latin1_lower (dmap (Decoder_init ?ev ''utf-8'' ''in'' ?dm SINGLE_FILE ''out.csv'')) ''Extra''
     = ''extra''"
    by (simp add: lower_Name lower_CAFE_acute lower_Extra)
  from 1 2 3 show ?thesis by blast
qed

text \<open>
  Claim C3 as stated fails: the unmapped column \<^verbatim>\<open>Extra\<close> does not keep its
  casing.
\<close>

theorem unmapped_column_casing_counterexample:
  "rename_columns latin1_lower
     (dmap (Decoder_init \<lparr>clock = (\<lambda>n. ''0''), to_csv_fails = (\<lambda>w. False), str_lower = latin1_lower\<rparr>
        ''utf-8'' ''in'' [(''Name'', ''account_name'')] SINGLE_FILE ''out.csv'')) ''Extra''
     \<noteq> ''Extra''"
  by (simp add: rename_columns_def Decoder_init_def lower_Extra lower_Name)

subsection \<open>The scratch directory of an archive\<close>

text \<open>
  An archive without members: no directory is made, and the listing of the
  directory raises.
\<close>

lemma empty_archive_raises:
  assumes "''/tmp/tar-output-'' @ clock ev (ticks st) \<notin> set (scratch_dirs st)"
  shows "TarfileDecoder_run ev p [] st = Inl (OtherError, st\<lparr>ticks := Suc (ticks st)\<rparr>)"
  using assms by (simp add: time_def extractall_def Let_def)

lemma endswith_tar_a_csv: "endswith ''/tmp/tar-output-0/a.csv'' ''.csv''"
  by (simp add: endswith_def)

lemma endswith_zip_a_csv: "endswith ''/tmp/zip-output-0/a.csv'' ''.csv''"
  by (simp add: endswith_def)

lemma tar_one_csv_returns:
  "\<not> isl (TarfileDecoder_run \<lparr>clock = (\<lambda>n. ''0''), to_csv_fails = (\<lambda>w. False), str_lower = latin1_lower\<rparr>
      ''in.tar''
      [(''a.csv'', File (Raises XLRDError)
          (\<lambda>e. Frame \<lparr>df_columns = [''Name''], df_rows = [[''x'']]\<rparr>) None None)]
      ((Decoder_init \<lparr>clock = (\<lambda>n. ''0''), to_csv_fails = (\<lambda>w. False), str_lower = latin1_lower\<rparr>
          ''utf-8'' ''in.tar'' [(''Name'', ''account_name'')] SINGLE_FILE ''out.csv'')
        \<lparr>dir := Some ''/tmp/updir-0''\<rparr>)) \<and>
   length (writes (dec_state (TarfileDecoder_run
      \<lparr>clock = (\<lambda>n. ''0''), to_csv_fails = (\<lambda>w. False), str_lower = latin1_lower\<rparr>
      ''in.tar''
      [(''a.csv'', File (Raises XLRDError)
          (\<lambda>e. Frame \<lparr>df_columns = [''Name''], df_rows = [[''x'']]\<rparr>) None None)]
      ((Decoder_init \<lparr>clock = (\<lambda>n. ''0''), to_csv_fails = (\<lambda>w. False), str_lower = latin1_lower\<rparr>
          ''utf-8'' ''in.tar'' [(''Name'', ''account_name'')] SINGLE_FILE ''out.csv'')
        \<lparr>dir := Some ''/tmp/updir-0''\<rparr>)))) = 1"
  by code_simp

lemma zip_one_csv_returns:
  "\<not> isl (ZipfileDecoder_run \<lparr>clock = (\<lambda>n. ''0''), to_csv_fails = (\<lambda>w. False), str_lower = latin1_lower\<rparr>
      ''in.zip''
      [(''a.csv'', File (Raises XLRDError)
          (\<lambda>e. Frame \<lparr>df_columns = [''Name''], df_rows = [[''x'']]\<rparr>) None None)]
      ((Decoder_init \<lparr>clock = (\<lambda>n. ''0''), to_csv_fails = (\<lambda>w. False), str_lower = latin1_lower\<rparr>
          ''utf-8'' ''in.zip'' [(''Name'', ''account_name'')] SINGLE_FILE ''out.csv'')
        \<lparr>dir := Some ''/tmp/updir-0''\<rparr>)) \<and>
   length (writes (dec_state (ZipfileDecoder_run
      \<lparr>clock = (\<lambda>n. ''0''), to_csv_fails = (\<lambda>w. False), str_lower = latin1_lower\<rparr>
      ''in.zip''
      [(''a.csv'', File (Raises XLRDError)
          (\<lambda>e. Frame \<lparr>df_columns = [''Name''], df_rows = [[''x'']]\<rparr>) None None)]
      ((Decoder_init \<lparr>clock = (\<lambda>n. ''0''), to_csv_fails = (\<lambda>w. False), str_lower = latin1_lower\<rparr>
          ''utf-8'' ''in.zip'' [(''Name'', ''account_name'')] SINGLE_FILE ''out.csv'')
        \<lparr>dir := Some ''/tmp/updir-0''\<rparr>)))) = 1"
  by code_simp

text \<open>
  Claim C9, as the code has it. The extraction directory of a tar or zip archive is
  gone whenever the archive decoder returns: \<^verbatim>\<open>rmtree\<close> is the last statement it
  runs. When the recursion over the extracted contents raises, the archive decoder
  raises the same error in the same state: nothing runs after the raise, so the
  directory is not removed.
\<close>

theorem archive_scratch_dir_removed_on_return:
  "(TarfileDecoder_run ev p entries st = Inr st' \<longrightarrow>
      ''/tmp/tar-output-'' @ clock ev (ticks st) \<notin> set (scratch_dirs st')) \<and>
   (DirectoryDecoder_run ev (''/tmp/tar-output-'' @ clock ev (ticks st)) entries
        (extractall (''/tmp/tar-output-'' @ clock ev (ticks st)) entries (st\<lparr>ticks := Suc (ticks st)\<rparr>))
      = Inl x \<longrightarrow>
      TarfileDecoder_run ev p entries st = Inl x) \<and>
   (ZipfileDecoder_run ev p entries st = Inr st' \<longrightarrow>
      ''/tmp/zip-output-'' @ clock ev (ticks st) \<notin> set (scratch_dirs st')) \<and>
   (DirectoryDecoder_run ev (''/tmp/zip-output-'' @ clock ev (ticks st)) entries
        (extractall (''/tmp/zip-output-'' @ clock ev (ticks st)) entries (st\<lparr>ticks := Suc (ticks st)\<rparr>))
      = Inl x \<longrightarrow>
      ZipfileDecoder_run ev p entries st = Inl x)"
proof -
  have made: "d \<in> set (scratch_dirs (extractall d entries s))" if "entries \<noteq> []" for d s
    using that by (simp add: extractall_def)
  have ne: "entries \<noteq> []" if "DirectoryDecoder_run ev d entries s = Inl x" for d s
    using that by (cases entries) simp_all
  have tar_ret: "''/tmp/tar-output-'' @ clock ev (ticks st) \<notin> set (scratch_dirs st')"
    if "TarfileDecoder_run ev p entries st = Inr st'"
    using that by (auto simp: time_def rmtree_def Let_def split: sum.splits if_splits)
  have zip_ret: "''/tmp/zip-output-'' @ clock ev (ticks st) \<notin> set (scratch_dirs st')"
    if "ZipfileDecoder_run ev p entries st = Inr st'"
    using that by (auto simp: time_def rmtree_def Let_def split: sum.splits if_splits)
  have tar_err: "TarfileDecoder_run ev p entries st = Inl x"
    if "DirectoryDecoder_run ev (''/tmp/tar-output-'' @ clock ev (ticks st)) entries
        (extractall (''/tmp/tar-output-'' @ clock ev (ticks st)) entries (st\<lparr>ticks := Suc (ticks st)\<rparr>))
      = Inl x"
    using that made [OF ne [OF that]] by (simp add: time_def Let_def)
  have zip_err: "ZipfileDecoder_run ev p entries st = Inl x"
    if "DirectoryDecoder_run ev (''/tmp/zip-output-'' @ clock ev (ticks st)) entries
        (extractall (''/tmp/zip-output-'' @ clock ev (ticks st)) entries (st\<lparr>ticks := Suc (ticks st)\<rparr>))
      = Inl x"
    using that made [OF ne [OF that]] by (simp add: time_def Let_def)
  from tar_ret tar_err zip_ret zip_err show ?thesis by blast
qed

theorem archive_scratch_dir_removed_on_return_witness:
  "(\<exists>st'. TarfileDecoder_run \<lparr>clock = (\<lambda>n. ''0''), to_csv_fails = (\<lambda>w. False), str_lower = latin1_lower\<rparr>
      ''in.tar''
      [(''a.csv'', File (Raises XLRDError)
          (\<lambda>e. Frame \<lparr>df_columns = [''Name''], df_rows = [[''x'']]\<rparr>) None None)]
      ((Decoder_init \<lparr>clock = (\<lambda>n. ''0''), to_csv_fails = (\<lambda>w. False), str_lower = latin1_lower\<rparr>
          ''utf-8'' ''in.tar'' [(''Name'', ''account_name'')] SINGLE_FILE ''out.csv'')
        \<lparr>dir := Some ''/tmp/updir-0''\<rparr>) = Inr st' \<and>
      length (writes st') = 1 \<and> ''/tmp/tar-output-0'' \<notin> set (scratch_dirs st')) \<and>
   (\<exists>st'. ZipfileDecoder_run \<lparr>clock = (\<lambda>n. ''0''), to_csv_fails = (\<lambda>w. False), str_lower = latin1_lower\<rparr>
      ''in.zip''
      [(''a.csv'', File (Raises XLRDError)
          (\<lambda>e. Frame \<lparr>df_columns = [''Name''], df_rows = [[''x'']]\<rparr>) None None)]
      ((Decoder_init \<lparr>clock = (\<lambda>n. ''0''), to_csv_fails = (\<lambda>w. False), str_lower = latin1_lower\<rparr>
          ''utf-8'' ''in.zip'' [(''Name'', ''account_name'')] SINGLE_FILE ''out.csv'')
        \<lparr>dir := Some ''/tmp/updir-0''\<rparr>) = Inr st' \<and>
      length (writes st') = 1 \<and> ''/tmp/zip-output-0'' \<notin> set (scratch_dirs st')) \<and>
   TarfileDecoder_run \<lparr>clock = (\<lambda>n. ''0''), to_csv_fails = (\<lambda>w. False), str_lower = latin1_lower\<rparr>
      ''in.tar''
      [(''a.csv'', File (Raises XLRDError) (\<lambda>e. Raises OtherError) None None)]
      (Decoder_init \<lparr>clock = (\<lambda>n. ''0''), to_csv_fails = (\<lambda>w. False), str_lower = latin1_lower\<rparr>
         ''utf-8'' ''in.tar'' [] SINGLE_FILE ''out.csv'')
    = Inl (OtherError,
        (Decoder_init \<lparr>clock = (\<lambda>n. ''0''), to_csv_fails = (\<lambda>w. False), str_lower = latin1_lower\<rparr>
           ''utf-8'' ''in.tar'' [] SINGLE_FILE ''out.csv'')
          \<lparr>ticks := 1, scratch_dirs := [''/tmp/tar-output-0''],
           csv_reads := [(''/tmp/tar-output-0/a.csv'', ''utf-8'')]\<rparr>) \<and>
   ZipfileDecoder_run \<lparr>clock = (\<lambda>n. ''0''), to_csv_fails = (\<lambda>w. False), str_lower = latin1_lower\<rparr>
      ''in.zip''
      [(''a.csv'', File (Raises XLRDError) (\<lambda>e. Raises OtherError) None None)]
      (Decoder_init \<lparr>clock = (\<lambda>n. ''0''), to_csv_fails = (\<lambda>w. False), str_lower = latin1_lower\<rparr>
         ''utf-8'' ''in.zip'' [] SINGLE_FILE ''out.csv'')
    = Inl (OtherError,
        (Decoder_init \<lparr>clock = (\<lambda>n. ''0''), to_csv_fails = (\<lambda>w. False), str_lower = latin1_lower\<rparr>
           ''utf-8'' ''in.zip'' [] SINGLE_FILE ''out.csv'')
          \<lparr>ticks := 1, scratch_dirs := [''/tmp/zip-output-0''],
           csv_reads := [(''/tmp/zip-output-0/a.csv'', ''utf-8'')]\<rparr>)"
proof -
  let ?ev = "\<lparr>clock = (\<lambda>n. ''0''), to_csv_fails = (\<lambda>w. False), str_lower = latin1_lower\<rparr>"
  let ?ok = "[(''a.csv'', File (Raises XLRDError)
          (\<lambda>e. Frame \<lparr>df_columns = [''Name''], df_rows = [[''x'']]\<rparr>) None None)]"
  let ?bad = "[(''a.csv'', File (Raises XLRDError) (\<lambda>e. Raises OtherError) None None)]"
  let ?st = "\<lambda>p. (Decoder_init ?ev ''utf-8'' p [(''Name'', ''account_name'')] SINGLE_FILE ''out.csv'')
        \<lparr>dir := Some ''/tmp/updir-0''\<rparr>"
  let ?s0 = "\<lambda>p. Decoder_init ?ev ''utf-8'' p [] SINGLE_FILE ''out.csv''"
  have t0: "ticks (?st p) = 0" "ticks (?s0 p) = 0" for p
    by (simp_all add: Decoder_init_def)
  from tar_one_csv_returns obtain a where
    a: "TarfileDecoder_run ?ev ''in.tar'' ?ok (?st ''in.tar'') = Inr a" and la: "length (writes a) = 1"
    by (cases "TarfileDecoder_run ?ev ''in.tar'' ?ok (?st ''in.tar'')") auto
  from archive_scratch_dir_removed_on_return [of ?ev "''in.tar''" ?ok "?st ''in.tar''" a] a
  have ra: "''/tmp/tar-output-0'' \<notin> set (scratch_dirs a)"
    by (simp add: t0)
  from zip_one_csv_returns obtain b where
    b: "ZipfileDecoder_run ?ev ''in.zip'' ?ok (?st ''in.zip'') = Inr b" and lb: "length (writes b) = 1"
    by (cases "ZipfileDecoder_run ?ev ''in.zip'' ?ok (?st ''in.zip'')") auto
  from archive_scratch_dir_removed_on_return [of ?ev "''in.zip''" ?ok "?st ''in.zip''" b] b
  have rb: "''/tmp/zip-output-0'' \<notin> set (scratch_dirs b)"
    by (simp add: t0)
  have dt: "DirectoryDecoder_run ?ev (''/tmp/tar-output-'' @ clock ?ev (ticks (?s0 ''in.tar''))) ?bad
        (extractall (''/tmp/tar-output-'' @ clock ?ev (ticks (?s0 ''in.tar''))) ?bad
           ((?s0 ''in.tar'')\<lparr>ticks := Suc (ticks (?s0 ''in.tar''))\<rparr>))
      = Inl (OtherError, (?s0 ''in.tar'')\<lparr>ticks := 1, scratch_dirs := [''/tmp/tar-output-0''],
           csv_reads := [(''/tmp/tar-output-0/a.csv'', ''utf-8'')]\<rparr>)"
    by (simp add: extractall_def endswith_tar_a_csv FileDecoder_run_def decode_excel_def
      decode_csv_def csv_attempt_def Decoder_init_def)
  have dz: "DirectoryDecoder_run ?ev (''/tmp/zip-output-'' @ clock ?ev (ticks (?s0 ''in.zip''))) ?bad
        (extractall (''/tmp/zip-output-'' @ clock ?ev (ticks (?s0 ''in.zip''))) ?bad
           ((?s0 ''in.zip'')\<lparr>ticks := Suc (ticks (?s0 ''in.zip''))\<rparr>))
      = Inl (OtherError, (?s0 ''in.zip'')\<lparr>ticks := 1, scratch_dirs := [''/tmp/zip-output-0''],
           csv_reads := [(''/tmp/zip-output-0/a.csv'', ''utf-8'')]\<rparr>)"
    by (simp add: extractall_def endswith_zip_a_csv FileDecoder_run_def decode_excel_def
      decode_csv_def csv_attempt_def Decoder_init_def)
  from archive_scratch_dir_removed_on_return [of ?ev "''in.tar''" ?bad "?s0 ''in.tar''" _
      "(OtherError, (?s0 ''in.tar'')\<lparr>ticks := 1, scratch_dirs := [''/tmp/tar-output-0''],
           csv_reads := [(''/tmp/tar-output-0/a.csv'', ''utf-8'')]\<rparr>)"] dt
  have et: "TarfileDecoder_run ?ev ''in.tar'' ?bad (?s0 ''in.tar'')
      = Inl (OtherError, (?s0 ''in.tar'')\<lparr>ticks := 1, scratch_dirs := [''/tmp/tar-output-0''],
           csv_reads := [(''/tmp/tar-output-0/a.csv'', ''utf-8'')]\<rparr>)"
    by blast
  from archive_scratch_dir_removed_on_return [of ?ev "''in.zip''" ?bad "?s0 ''in.zip''" _
      "(OtherError, (?s0 ''in.zip'')\<lparr>ticks := 1, scratch_dirs := [''/tmp/zip-output-0''],
           csv_reads := [(''/tmp/zip-output-0/a.csv'', ''utf-8'')]\<rparr>)"] dz
  have ez: "ZipfileDecoder_run ?ev ''in.zip'' ?bad (?s0 ''in.zip'')
      = Inl (OtherError, (?s0 ''in.zip'')\<lparr>ticks := 1, scratch_dirs := [''/tmp/zip-output-0''],
           csv_reads := [(''/tmp/zip-output-0/a.csv'', ''utf-8'')]\<rparr>)"
    by blast
  from a la ra b lb rb et ez show ?thesis by blast
qed

text \<open>
  Claim C9 as stated fails: a tar archive holds \<^verbatim>\<open>a.csv\<close>, which is no
  spreadsheet and which \<^verbatim>\<open>read_csv\<close> rejects with another exception (an empty
  file, say). The decoder raises that exception and the extraction directory is
  still there.
\<close>

theorem archive_scratch_dir_left_on_error_counterexample:
  "TarfileDecoder_run \<lparr>clock = (\<lambda>n. ''0''), to_csv_fails = (\<lambda>w. False), str_lower = latin1_lower\<rparr>
      ''in.tar''
      [(''a.csv'', File (Raises XLRDError) (\<lambda>e. Raises OtherError) None None)]
      (Decoder_init \<lparr>clock = (\<lambda>n. ''0''), to_csv_fails = (\<lambda>w. False), str_lower = latin1_lower\<rparr>
         ''utf-8'' ''in.tar'' [] SINGLE_FILE ''out.csv'')
    = Inl (OtherError,
        (Decoder_init \<lparr>clock = (\<lambda>n. ''0''), to_csv_fails = (\<lambda>w. False), str_lower = latin1_lower\<rparr>
           ''utf-8'' ''in.tar'' [] SINGLE_FILE ''out.csv'')
          \<lparr>ticks := 1, scratch_dirs := [''/tmp/tar-output-0''],
           csv_reads := [(''/tmp/tar-output-0/a.csv'', ''utf-8'')]\<rparr>)"
  by (simp add: time_def extractall_def endswith_tar_a_csv FileDecoder_run_def decode_excel_def
      decode_csv_def csv_attempt_def Decoder_init_def)

subsection \<open>The header and the columns of the merged output\<close>

lemma merged_post_simps [simp]:
  "merged_post t lw m (Inl (e, st)) = writes_ok t lw m (writes st)"
  "merged_post t lw m (Inr st) = merged_inv t lw m st"
  by (simp_all add: merged_post_def)

lemma inv_writes_ok: "merged_inv t lw m st \<Longrightarrow> writes_ok t lw m (writes st)"
  by (simp add: merged_inv_def)

lemma writes_ok_snoc:
  assumes "writes_ok t lw m ws" and "ws \<noteq> []"
    and "\<not> w_header w" and "w_columns w = map snd m" and "w_mode w = ''a''" and "w_path w = t"
    and "df_columns (w_frame w) = map (rename_columns lw m) (w_source w)"
  shows "writes_ok t lw m (ws @ [w])"
  using assms by (cases ws) (simp_all add: writes_ok_def)

lemma writes_ok_single:
  assumes "w_header w" and "w_columns w = map snd m" and "w_mode w = ''a''" and "w_path w = t"
    and "df_columns (w_frame w) = map (rename_columns lw m) (w_source w)"
  shows "writes_ok t lw m [w]"
  using assms by (simp add: writes_ok_def)

lemma inv_csv_reads [simp]: "merged_inv t lw m (st\<lparr>csv_reads := x\<rparr>) = merged_inv t lw m st"
  by (simp add: merged_inv_def out_dir_def)

lemma inv_ticks [simp]: "merged_inv t lw m (st\<lparr>ticks := x\<rparr>) = merged_inv t lw m st"
  by (simp add: merged_inv_def out_dir_def)

lemma inv_scratch_dirs [simp]: "merged_inv t lw m (st\<lparr>scratch_dirs := x\<rparr>) = merged_inv t lw m st"
  by (simp add: merged_inv_def out_dir_def)

lemma post_write:
  assumes "merged_inv t (str_lower ev) m st"
  shows "merged_post t (str_lower ev) m (FileDecoder_write ev df st)"
proof -
  from assms have s: "out_type st = SINGLE_FILE" by (simp add: merged_inv_def)
  show ?thesis
  proof (cases "first st")
    case True
    with assms have e: "writes st = []" by (simp add: merged_inv_def)
    from assms e show ?thesis
      unfolding write_single_first [OF s True]
      by (simp add: merged_inv_def out_dir_def writes_ok_def)
  next
    case False
    with assms have ne: "writes st \<noteq> []" by (simp add: merged_inv_def)
    from assms have ok: "writes_ok t (str_lower ev) m (writes st)" by (rule inv_writes_ok)
    have "writes_ok t (str_lower ev) m (writes st @ [\<lparr>w_path = out_dir st @ ''/'' @ dest st, w_header = False, w_mode = ''a'',
               w_columns = map snd (dmap st),
               w_frame = df\<lparr>df_columns := map (rename_columns (str_lower ev) (dmap st)) (df_columns df)\<rparr>,
               w_source = df_columns df\<rparr>])"
      using ok ne assms by (intro writes_ok_snoc) (simp_all add: merged_inv_def)
    with assms ok False show ?thesis
      unfolding write_single_later [OF s False]
      by (simp add: merged_inv_def out_dir_def)
  qed
qed

lemma post_attempt:
  assumes "merged_inv t (str_lower ev) m st"
  shows "merged_post t (str_lower ev) m (csv_attempt ev p csv enc st)"
proof (cases "csv enc")
  case (Frame df)
  from assms have "merged_inv t (str_lower ev) m (st\<lparr>csv_reads := csv_reads st @ [(p, enc)]\<rparr>)" by simp
  from post_write [OF this] Frame show ?thesis by (simp add: csv_attempt_def)
next
  case (Raises e)
  with assms show ?thesis by (simp add: csv_attempt_def inv_writes_ok)
qed

lemma post_loop:
  "merged_inv t (str_lower ev) m st \<Longrightarrow> merged_post t (str_lower ev) m (decode_csv_loop ev p csv encs st)"
proof (induction encs arbitrary: st)
  case Nil
  then show ?case by simp
next
  case (Cons enc rest)
  show ?case
  proof (cases "csv enc = Raises UnicodeError")
    case True
    from Cons.prems have "merged_inv t (str_lower ev) m (st\<lparr>csv_reads := csv_reads st @ [(p, enc)]\<rparr>)" by simp
    from Cons.IH [OF this] this show ?thesis
      unfolding attempt_unicode [of csv enc, OF True] by (simp add: inv_writes_ok)
  next
    case False
    from post_attempt [OF Cons.prems] show ?thesis
      unfolding attempt_ok [of csv enc, OF False] .
  qed
qed

lemma post_file:
  assumes "merged_inv t (str_lower ev) m st"
  shows "merged_post t (str_lower ev) m (FileDecoder_run ev p excel csv st)"
proof (cases excel)
  case (Frame df)
  show ?thesis
  proof (cases "FileDecoder_write ev df st")
    case (Inl x)
    obtain e s where x: "x = (e, s)" by (cases x)
    from Inl x write_error have "e = OtherError" by blast
    with post_write [OF assms, of df] Inl x Frame show ?thesis
      by (simp add: FileDecoder_run_def decode_excel_def)
  next
    case (Inr s)
    with post_write [OF assms, of df] Frame show ?thesis
      by (simp add: FileDecoder_run_def decode_excel_def)
  qed
next
  case (Raises e)
  with assms post_loop [OF assms, of p csv "[''utf-8'', ''utf-16'', ''latin-1'']"] show ?thesis
    by (simp add: FileDecoder_run_def decode_excel_def decode_csv_def inv_writes_ok
        del: decode_csv_loop.simps)
qed

lemma post_rmtree: "merged_inv t (str_lower ev) m st \<Longrightarrow> merged_post t (str_lower ev) m (rmtree d st)"
  by (simp add: rmtree_def inv_writes_ok)

lemma post_traversal:
  "merged_inv t (str_lower ev) m st \<Longrightarrow> merged_post t (str_lower ev) m (ChooseyDecoder_run ev p node st)"
  "merged_inv t (str_lower ev) m st \<Longrightarrow> merged_post t (str_lower ev) m (DirectoryDecoder_run ev p entries st)"
  "merged_inv t (str_lower ev) m st \<Longrightarrow> merged_post t (str_lower ev) m (TarfileDecoder_run ev p entries st)"
  "merged_inv t (str_lower ev) m st \<Longrightarrow> merged_post t (str_lower ev) m (ZipfileDecoder_run ev p entries st)"
proof (induction ev p node st and ev p entries st and ev p entries st and ev p entries st
    rule: ChooseyDecoder_run_DirectoryDecoder_run_TarfileDecoder_run_ZipfileDecoder_run.induct)
  case (1 ev p entries st)
  then show ?case by simp
next
  case (2 ev p excel csv tar_listing zip_listing st)
  then show ?case
    by (auto simp: post_file split: option.splits)
next
  case (3 ev p st)
  then show ?case by simp
next
  case (4 ev p name node entries st)
  show ?case
  proof (cases "ChooseyDecoder_run ev (p @ ''/'' @ name) node st")
    case (Inl x)
    obtain e s where x: "x = (e, s)" by (cases x)
    from "4.IH"(1) [OF "4.prems"] Inl x show ?thesis by simp
  next
    case (Inr s)
    from "4.IH"(1) [OF "4.prems"] Inr have "merged_inv t (str_lower ev) m s" by simp
    from "4.IH"(2) [OF Inr this] Inr show ?thesis by simp
  qed
next
  case (5 ev p entries st)
  let ?d = "''/tmp/tar-output-'' @ clock ev (ticks st)"
  let ?st2 = "extractall ?d entries (st\<lparr>ticks := Suc (ticks st)\<rparr>)"
  from "5.prems" have i: "merged_inv t (str_lower ev) m ?st2" by (simp add: extractall_def)
  show ?case
  proof (cases "?d \<in> set (scratch_dirs ?st2)")
    case False
    with inv_writes_ok [OF i] show ?thesis by (simp add: time_def Let_def)
  next
    case True
    have ih: "merged_post t (str_lower ev) m (DirectoryDecoder_run ev ?d entries ?st2)"
    proof (rule "5.IH" [OF refl _ refl refl _ i])
      show "(clock ev (ticks st), st\<lparr>ticks := Suc (ticks st)\<rparr>) = time ev st"
        by (simp add: time_def)
      from True show "\<not> ?d \<notin> set (scratch_dirs ?st2)" by simp
    qed
    show ?thesis
    proof (cases "DirectoryDecoder_run ev ?d entries ?st2")
      case (Inl x)
      obtain e s where x: "x = (e, s)" by (cases x)
      from ih Inl x True show ?thesis by (simp add: time_def Let_def)
    next
      case (Inr s)
      with ih have "merged_inv t (str_lower ev) m s" by simp
      from post_rmtree [OF this] Inr True show ?thesis by (simp add: time_def Let_def)
    qed
  qed
next
  case (6 ev p entries st)
  let ?d = "''/tmp/zip-output-'' @ clock ev (ticks st)"
  let ?st2 = "extractall ?d entries (st\<lparr>ticks := Suc (ticks st)\<rparr>)"
  from "6.prems" have i: "merged_inv t (str_lower ev) m ?st2" by (simp add: extractall_def)
  show ?case
  proof (cases "?d \<in> set (scratch_dirs ?st2)")
    case False
    with inv_writes_ok [OF i] show ?thesis by (simp add: time_def Let_def)
  next
    case True
    have ih: "merged_post t (str_lower ev) m (DirectoryDecoder_run ev ?d entries ?st2)"
    proof (rule "6.IH" [OF refl _ refl refl _ i])
      show "(clock ev (ticks st), st\<lparr>ticks := Suc (ticks st)\<rparr>) = time ev st"
        by (simp add: time_def)
      from True show "\<not> ?d \<notin> set (scratch_dirs ?st2)" by simp
    qed
    show ?thesis
    proof (cases "DirectoryDecoder_run ev ?d entries ?st2")
      case (Inl x)
      obtain e s where x: "x = (e, s)" by (cases x)
      from ih Inl x True show ?thesis by (simp add: time_def Let_def)
    next
      case (Inr s)
      with ih have "merged_inv t (str_lower ev) m s" by simp
      from post_rmtree [OF this] Inr True show ?thesis by (simp add: time_def Let_def)
    qed
  qed
qed

lemma no_header_replicate:
  "list_all (\<lambda>x. \<not> w_header x) ws \<Longrightarrow> map w_header ws = replicate (length ws) False"
  by (induction ws) simp_all

lemma no_header_filter: "list_all (\<lambda>x. \<not> w_header x) ws \<Longrightarrow> filter w_header ws = []"
  by (induction ws) simp_all

lemma rename_in_values:
  "rename_columns lw m s \<in> set (map snd m) \<longleftrightarrow> lw s \<in> fst ` set m \<or> lw s \<in> snd ` set m"
proof (cases "map_of m (lw s)")
  case None
  then have "lw s \<notin> fst ` set m" by (simp add: map_of_eq_None_iff)
  with None show ?thesis by (simp add: rename_columns_def)
next
  case (Some c)
  then have "(lw s, c) \<in> set m" by (rule map_of_SomeD)
  then have "lw s \<in> fst ` set m" "c \<in> snd ` set m" by force+
  with Some show ?thesis by (simp add: rename_columns_def)
qed

lemma zip_map_self: "zip xs (map f xs) = map (\<lambda>x. (x, f x)) xs"
  by (induction xs) simp_all

lemma selected_char:
  assumes "w_columns w = map snd m"
    and "df_columns (w_frame w) = map (rename_columns lw m) (w_source w)"
  shows "selected w =
     map (\<lambda>s. (s, rename_columns lw m s))
       (filter (\<lambda>s. lw s \<in> fst ` set m \<or> lw s \<in> snd ` set m) (w_source w))"
proof -
  have "selected w =
      filter (\<lambda>(s, l). l \<in> set (map snd m)) (map (\<lambda>s. (s, rename_columns lw m s)) (w_source w))"
    by (simp add: selected_def assms zip_map_self)
  also have "\<dots> = map (\<lambda>s. (s, rename_columns lw m s))
      (filter (\<lambda>s. rename_columns lw m s \<in> set (map snd m)) (w_source w))"
    by (simp add: filter_map comp_def)
  finally show ?thesis by (simp only: rename_in_values)
qed

lemma writes_ok_headers:
  assumes "writes_ok t lw m ws"
  shows "map w_header ws = (case ws of [] \<Rightarrow> [] | w # rest \<Rightarrow> True # replicate (length rest) False)"
    and "length (filter w_header ws) = (if ws = [] then 0 else 1)"
    and "list_all (\<lambda>w. w_columns w = map snd m \<and> w_mode w = ''a'' \<and> w_path w = t \<and>
            selected w =
              map (\<lambda>s. (s, rename_columns lw m s))
                (filter (\<lambda>s. lw s \<in> fst ` set m \<or> lw s \<in> snd ` set m) (w_source w))) ws"
proof -
  from assms show "map w_header ws = (case ws of [] \<Rightarrow> [] | w # rest \<Rightarrow> True # replicate (length rest) False)"
    by (cases ws) (simp_all add: writes_ok_def no_header_replicate)
  from assms show "length (filter w_header ws) = (if ws = [] then 0 else 1)"
    by (cases ws) (simp_all add: writes_ok_def no_header_filter)
  from assms have "list_all (\<lambda>w. w_columns w = map snd m \<and> w_mode w = ''a'' \<and> w_path w = t \<and>
      df_columns (w_frame w) = map (rename_columns lw m) (w_source w)) ws"
    by (simp add: writes_ok_def)
  then show "list_all (\<lambda>w. w_columns w = map snd m \<and> w_mode w = ''a'' \<and> w_path w = t \<and>
            selected w =
              map (\<lambda>s. (s, rename_columns lw m s))
                (filter (\<lambda>s. lw s \<in> fst ` set m \<or> lw s \<in> snd ` set m) (w_source w))) ws"
    by (auto simp: list_all_iff intro: selected_char)
qed

lemma post_run:
  "writes_ok (''/tmp/updir-'' @ clock ev 0 @ ''/'' @ dst) (str_lower ev)
     (dmap (Decoder_init ev enc p dict_map SINGLE_FILE dst))
     (writes (run_state (Decoder_run ev root (Decoder_init ev enc p dict_map SINGLE_FILE dst))))"
proof -
  let ?st0 = "Decoder_init ev enc p dict_map SINGLE_FILE dst"
  let ?d = "''/tmp/updir-'' @ clock ev 0"
  let ?t = "?d @ ''/'' @ dst"
  let ?st2 = "?st0\<lparr>ticks := Suc 0, dir := Some ?d, scratch_dirs := [?d]\<rparr>"
  have i: "merged_inv ?t (str_lower ev) (dmap ?st0) ?st2"
    by (simp add: merged_inv_def Decoder_init_def out_dir_def writes_ok_def)
  have r: "run_state (Decoder_run ev root ?st0) = dec_state (ChooseyDecoder_run ev p root ?st2)"
    by (cases "ChooseyDecoder_run ev p root ?st2")
      (auto simp: Decoder_run_def time_def Decoder_init_def run_state_def Let_def)
  show ?thesis
  proof (cases "ChooseyDecoder_run ev p root ?st2")
    case (Inl x)
    obtain e s where x: "x = (e, s)" by (cases x)
    from post_traversal(1) [OF i, of p root] Inl x show ?thesis
      by (simp add: r)
  next
    case (Inr s)
    from post_traversal(1) [OF i, of p root] Inr show ?thesis
      by (simp add: r inv_writes_ok)
  qed
qed

lemma two_csv_writes:
  "map w_header (writes (run_state (Decoder_run
      \<lparr>clock = (\<lambda>n. ''0''), to_csv_fails = (\<lambda>w. False), str_lower = latin1_lower\<rparr>
      (File (Raises OtherError) (\<lambda>e. Raises OtherError) None
        (Some [(''a.csv'', File (Raises XLRDError)
                  (\<lambda>e. Frame \<lparr>df_columns = [''Name'', ''Amount'', ''Extra''], df_rows = [[''x'', ''1'', ''e'']]\<rparr>)
                  None None),
               (''b.csv'', File (Raises XLRDError)
                  (\<lambda>e. Frame \<lparr>df_columns = [''Name'', ''Amount''], df_rows = [[''y'', ''2'']]\<rparr>)
                  None None)]))
      (Decoder_init \<lparr>clock = (\<lambda>n. ''0''), to_csv_fails = (\<lambda>w. False), str_lower = latin1_lower\<rparr>
         ''utf-8'' ''in.zip'' [(''Name'', ''account_name''), (''Amount'', ''revenue'')]
         SINGLE_FILE ''out.csv'')))) = [True, False] \<and>
   map w_source (writes (run_state (Decoder_run
      \<lparr>clock = (\<lambda>n. ''0''), to_csv_fails = (\<lambda>w. False), str_lower = latin1_lower\<rparr>
      (File (Raises OtherError) (\<lambda>e. Raises OtherError) None
        (Some [(''a.csv'', File (Raises XLRDError)
                  (\<lambda>e. Frame \<lparr>df_columns = [''Name'', ''Amount'', ''Extra''], df_rows = [[''x'', ''1'', ''e'']]\<rparr>)
                  None None),
               (''b.csv'', File (Raises XLRDError)
                  (\<lambda>e. Frame \<lparr>df_columns = [''Name'', ''Amount''], df_rows = [[''y'', ''2'']]\<rparr>)
                  None None)]))
      (Decoder_init \<lparr>clock = (\<lambda>n. ''0''), to_csv_fails = (\<lambda>w. False), str_lower = latin1_lower\<rparr>
         ''utf-8'' ''in.zip'' [(''Name'', ''account_name''), (''Amount'', ''revenue'')]
         SINGLE_FILE ''out.csv'')))) = [[''Name'', ''Amount'', ''Extra''], [''Name'', ''Amount'']]"
  by code_simp

lemma two_csv_map:
  "dmap (Decoder_init \<lparr>clock = (\<lambda>n. ''0''), to_csv_fails = (\<lambda>w. False), str_lower = latin1_lower\<rparr>
         ''utf-8'' ''in.zip'' [(''Name'', ''account_name''), (''Amount'', ''revenue'')]
         SINGLE_FILE ''out.csv'') = [(''name'', ''account_name''), (''amount'', ''revenue'')]"
  by code_simp

lemma two_csv_picked:
  "map (\<lambda>s. (s, rename_columns latin1_lower [(''name'', ''account_name''), (''amount'', ''revenue'')] s))
     (filter (\<lambda>s. latin1_lower s \<in> fst ` set [(''name'', ''account_name''), (''amount'', ''revenue'')] \<or>
                  latin1_lower s \<in> snd ` set [(''name'', ''account_name''), (''amount'', ''revenue'')])
        [''Name'', ''Amount'', ''Extra''])
   = [(''Name'', ''account_name''), (''Amount'', ''revenue'')]"
  by code_simp

text \<open>
  Claim C8, as the code has it. A fresh decoder in merged mode runs over any file
  tree, to the end or to the exception that stops it. Of the writes that went
  through, the first and only the first carries the header, so the header is
  written once as soon as anything is written (and never when nothing is); every
  write appends to the one output file and asks for exactly the canonical columns
  of the map. The columns of a source file that are written are those whose
  lowercased name is a key of the map, under the canonical name, and those whose
  lowercased name is itself a canonical name, under that name; every other column
  is left out.
\<close>

theorem merged_mode_header_and_columns:
  "let st0 = Decoder_init ev enc p dict_map SINGLE_FILE dst;
       ws = writes (run_state (Decoder_run ev root st0))
   in map w_header ws = (case ws of [] \<Rightarrow> [] | w # rest \<Rightarrow> True # replicate (length rest) False) \<and>
      length (filter w_header ws) = (if ws = [] then 0 else 1) \<and>
      list_all (\<lambda>w. w_columns w = map snd (dmap st0) \<and> w_mode w = ''a'' \<and>
                  w_path w = ''/tmp/updir-'' @ clock ev 0 @ ''/'' @ dst \<and>
                  selected w =
                    map (\<lambda>s. (s, rename_columns (str_lower ev) (dmap st0) s))
                      (filter (\<lambda>s. str_lower ev s \<in> fst ` set (dmap st0) \<or>
                                   str_lower ev s \<in> snd ` set (dmap st0)) (w_source w))) ws"
proof -
  note h = writes_ok_headers [OF post_run [of ev dst enc p dict_map root]]
  show ?thesis
    by (simp only: Let_def) (intro conjI h)
qed

theorem merged_mode_header_and_columns_witness:
  "\<exists>w1 w2. writes (run_state (Decoder_run
      \<lparr>clock = (\<lambda>n. ''0''), to_csv_fails = (\<lambda>w. False), str_lower = latin1_lower\<rparr>
      (File (Raises OtherError) (\<lambda>e. Raises OtherError) None
        (Some [(''a.csv'', File (Raises XLRDError)
                  (\<lambda>e. Frame \<lparr>df_columns = [''Name'', ''Amount'', ''Extra''], df_rows = [[''x'', ''1'', ''e'']]\<rparr>)
                  None None),
               (''b.csv'', File (Raises XLRDError)
                  (\<lambda>e. Frame \<lparr>df_columns = [''Name'', ''Amount''], df_rows = [[''y'', ''2'']]\<rparr>)
                  None None)]))
      (Decoder_init \<lparr>clock = (\<lambda>n. ''0''), to_csv_fails = (\<lambda>w. False), str_lower = latin1_lower\<rparr>
         ''utf-8'' ''in.zip'' [(''Name'', ''account_name''), (''Amount'', ''revenue'')]
         SINGLE_FILE ''out.csv''))) = [w1, w2] \<and>
     w_header w1 \<and> \<not> w_header w2 \<and>
     w_source w1 = [''Name'', ''Amount'', ''Extra''] \<and>
     selected w1 = [(''Name'', ''account_name''), (''Amount'', ''revenue'')] \<and>
     w_columns w1 = [''account_name'', ''revenue''] \<and> w_columns w2 = [''account_name'', ''revenue''] \<and>
     w_path w1 = ''/tmp/updir-0/out.csv'' \<and> w_path w2 = ''/tmp/updir-0/out.csv''"
proof -
  let ?ev = "\<lparr>clock = (\<lambda>n. ''0''), to_csv_fails = (\<lambda>w. False), str_lower = latin1_lower\<rparr>"
  let ?root = "File (Raises OtherError) (\<lambda>e. Raises OtherError) None
        (Some [(''a.csv'', File (Raises XLRDError)
                  (\<lambda>e. Frame \<lparr>df_columns = [''Name'', ''Amount'', ''Extra''], df_rows = [[''x'', ''1'', ''e'']]\<rparr>)
                  None None),
               (''b.csv'', File (Raises XLRDError)
                  (\<lambda>e. Frame \<lparr>df_columns = [''Name'', ''Amount''], df_rows = [[''y'', ''2'']]\<rparr>)
                  None None)])"
  let ?st0 = "Decoder_init ?ev ''utf-8'' ''in.zip'' [(''Name'', ''account_name''), (''Amount'', ''revenue'')]
         SINGLE_FILE ''out.csv''"
  let ?ws = "writes (run_state (Decoder_run ?ev ?root ?st0))"
  from two_csv_writes have hs: "map w_header ?ws = [True, False]"
    and ss: "map w_source ?ws = [[''Name'', ''Amount'', ''Extra''], [''Name'', ''Amount'']]"
    by blast+
  from hs obtain w1 w2 where ws: "?ws = [w1, w2]"
    by (cases ?ws; cases "tl ?ws") auto
  from hs ss ws have f: "w_header w1" "\<not> w_header w2" "w_source w1 = [''Name'', ''Amount'', ''Extra'']"
    by simp_all
  from merged_mode_header_and_columns [of ?ev "''utf-8''" "''in.zip''"
      "[(''Name'', ''account_name''), (''Amount'', ''revenue'')]" "''out.csv''" ?root]
  have "list_all (\<lambda>w. w_columns w = map snd (dmap ?st0) \<and> w_mode w = ''a'' \<and>
                  w_path w = ''/tmp/updir-'' @ clock ?ev 0 @ ''/'' @ ''out.csv'' \<and>
                  selected w =
                    map (\<lambda>s. (s, rename_columns (str_lower ?ev) (dmap ?st0) s))
                      (filter (\<lambda>s. str_lower ?ev s \<in> fst ` set (dmap ?st0) \<or>
                                   str_lower ?ev s \<in> snd ` set (dmap ?st0)) (w_source w))) ?ws"
    by (simp only: Let_def)
  then have a: "list_all (\<lambda>w. w_columns w = [''account_name'', ''revenue''] \<and>
                  w_path w = ''/tmp/updir-0/out.csv'' \<and>
                  selected w =
                    map (\<lambda>s. (s, rename_columns latin1_lower [(''name'', ''account_name''), (''amount'', ''revenue'')] s))
                      (filter (\<lambda>s. latin1_lower s \<in> fst ` set [(''name'', ''account_name''), (''amount'', ''revenue'')] \<or>
                                   latin1_lower s \<in> snd ` set [(''name'', ''account_name''), (''amount'', ''revenue'')])
                         (w_source w))) ?ws"
    unfolding two_csv_map by (simp add: list_all_iff)
  have m: "w1 \<in> set ?ws" "w2 \<in> set ?ws" using ws by simp_all
  from a m(1) have p1: "w_columns w1 = [''account_name'', ''revenue'']"
    "w_path w1 = ''/tmp/updir-0/out.csv''"
    "selected w1 =
       map (\<lambda>s. (s, rename_columns latin1_lower [(''name'', ''account_name''), (''amount'', ''revenue'')] s))
         (filter (\<lambda>s. latin1_lower s \<in> fst ` set [(''name'', ''account_name''), (''amount'', ''revenue'')] \<or>
                      latin1_lower s \<in> snd ` set [(''name'', ''account_name''), (''amount'', ''revenue'')])
            (w_source w1))"
    unfolding list_all_iff by blast+
  from a m(2) have p2: "w_columns w2 = [''account_name'', ''revenue'']"
    "w_path w2 = ''/tmp/updir-0/out.csv''"
    unfolding list_all_iff by blast+
  from p1(3) have "selected w1 = [(''Name'', ''account_name''), (''Amount'', ''revenue'')]"
    by (simp only: f(3) two_csv_picked)
  with p1(1,2) p2 ws f show ?thesis by blast
qed

text \<open>
  Claim C8 as stated fails: the map sends \<^verbatim>\<open>Amount\<close> to \<^verbatim>\<open>revenue\<close>, and a
  file has the columns \<^verbatim>\<open>Amount\<close> and \<^verbatim>\<open>REVENUE\<close>. The second is no key of
  the map; lowercased it bears the canonical label, and it is written.
\<close>

theorem unmapped_column_reaches_output_counterexample:
  "selected (hd (writes (run_state (Decoder_run
      \<lparr>clock = (\<lambda>n. ''0''), to_csv_fails = (\<lambda>w. False), str_lower = latin1_lower\<rparr>
      (File (Raises XLRDError)
         (\<lambda>e. Frame \<lparr>df_columns = [''Amount'', ''REVENUE''], df_rows = [[''1'', ''2'']]\<rparr>) None None)
      (Decoder_init \<lparr>clock = (\<lambda>n. ''0''), to_csv_fails = (\<lambda>w. False), str_lower = latin1_lower\<rparr>
         ''utf-8'' ''in.csv'' [(''Amount'', ''revenue'')] SINGLE_FILE ''out.csv'')))))
     = [(''Amount'', ''revenue''), (''REVENUE'', ''revenue'')] \<and>
   map_of (dmap (Decoder_init \<lparr>clock = (\<lambda>n. ''0''), to_csv_fails = (\<lambda>w. False), str_lower = latin1_lower\<rparr>
         ''utf-8'' ''in.csv'' [(''Amount'', ''revenue'')] SINGLE_FILE ''out.csv'')) (latin1_lower ''REVENUE'')
     = None"
  by code_simp

section \<open>Properties of the attribute store\<close>

lemma new_keeps:
  assumes "SettingOption_new h = (fl, h1)"
  shows "class_attrs h1 = class_attrs h" and "dict_objs h1 = dict_objs h"
    and "instance_attrs h1 fl \<noteq> None"
    and "(\<forall>obj d. instance_attrs h obj = Some d \<longrightarrow> d ''custom_data'' = None) \<Longrightarrow>
         (\<forall>obj d. instance_attrs h1 obj = Some d \<longrightarrow> d ''custom_data'' = None)"
    and "instance_attrs h obj \<noteq> None \<Longrightarrow> instance_attrs h1 obj \<noteq> None"
  using assms by (auto simp: SettingOption_new_def Let_def split: if_splits)

lemma setattr_keeps:
  "class_attrs (setattr obj name v h) = class_attrs h"
  "dict_objs (setattr obj name v h) = dict_objs h"
  "instance_attrs (setattr obj name v h) obj \<noteq> None"
  "instance_attrs h obj' \<noteq> None \<Longrightarrow> instance_attrs (setattr obj name v h) obj' \<noteq> None"
  by (simp_all add: setattr_def)

lemma setattr_no_custom_data:
  assumes "name \<noteq> ''custom_data''"
    and "\<forall>obj d. instance_attrs h obj = Some d \<longrightarrow> d ''custom_data'' = None"
  shows "\<forall>obj' d. instance_attrs (setattr obj name v h) obj' = Some d \<longrightarrow> d ''custom_data'' = None"
  using assms by (auto simp: setattr_def split: option.splits if_splits)

lemma create_keeps:
  assumes "create args h = (fl, h1)"
  shows "class_attrs h1 = class_attrs h" and "dict_objs h1 = dict_objs h"
    and "instance_attrs h1 fl \<noteq> None"
    and "(\<forall>obj d. instance_attrs h obj = Some d \<longrightarrow> d ''custom_data'' = None) \<Longrightarrow>
         (\<forall>obj d. instance_attrs h1 obj = Some d \<longrightarrow> d ''custom_data'' = None)"
    and "instance_attrs h obj \<noteq> None \<Longrightarrow> instance_attrs h1 obj \<noteq> None"
proof -
  obtain h0 where n: "SettingOption_new h = (fl, h0)"
    and h1: "h1 = setattr fl ''prompt'' (arg_prompt args)
           (setattr fl ''after'' (arg_after args)
             (setattr fl ''show'' (arg_show args)
               (setattr fl ''validation'' (arg_validation args)
                 (setattr fl ''required'' (arg_required args)
                   (setattr fl ''method'' (arg_method args)
                     (setattr fl ''help'' (arg_helptext args)
                       (setattr fl ''default'' (arg_default args) h0)))))))"
    using assms by (auto simp: create_def split: prod.splits)
  show "class_attrs h1 = class_attrs h" "dict_objs h1 = dict_objs h"
    by (simp_all add: h1 setattr_keeps new_keeps [OF n])
  show "instance_attrs h1 fl \<noteq> None"
    by (simp add: h1 setattr_keeps)
  show "instance_attrs h obj \<noteq> None \<Longrightarrow> instance_attrs h1 obj \<noteq> None"
    by (simp add: h1 setattr_keeps new_keeps(5) [OF n])
  show "\<forall>obj d. instance_attrs h1 obj = Some d \<longrightarrow> d ''custom_data'' = None"
    if "\<forall>obj d. instance_attrs h obj = Some d \<longrightarrow> d ''custom_data'' = None"
    unfolding h1
    by (intro setattr_no_custom_data new_keeps(4) [OF n] that) simp_all
qed

lemma creates_keeps:
  assumes "creates argss h = (objs, h')"
    and "\<forall>obj d. instance_attrs h obj = Some d \<longrightarrow> d ''custom_data'' = None"
  shows "class_attrs h' = class_attrs h \<and> dict_objs h' = dict_objs h \<and>
     (\<forall>obj d. instance_attrs h' obj = Some d \<longrightarrow> d ''custom_data'' = None) \<and>
     (\<forall>obj \<in> set objs. instance_attrs h' obj \<noteq> None) \<and>
     (\<forall>obj. instance_attrs h obj \<noteq> None \<longrightarrow> instance_attrs h' obj \<noteq> None)"
  using assms
proof (induction argss arbitrary: h objs h')
  case Nil
  then show ?case by simp
next
  case (Cons args rest)
  obtain fl h1 where c: "create args h = (fl, h1)" by (cases "create args h")
  obtain fls h2 where r: "creates rest h1 = (fls, h2)" by (cases "creates rest h1")
  from Cons.prems(1) c r have o: "objs = fl # fls" and h': "h' = h2" by simp_all
  note k = create_keeps [OF c]
  from k(4) Cons.prems(2)
  have i1: "\<forall>obj d. instance_attrs h1 obj = Some d \<longrightarrow> d ''custom_data'' = None" by blast
  note ih = Cons.IH [OF r i1]
  from ih k(1,2) have "class_attrs h2 = class_attrs h" "dict_objs h2 = dict_objs h" by simp_all
  moreover from ih have "\<forall>obj d. instance_attrs h2 obj = Some d \<longrightarrow> d ''custom_data'' = None"
    by blast
  moreover from ih k(3) have "instance_attrs h2 fl \<noteq> None" by blast
  moreover from ih have "\<forall>obj \<in> set fls. instance_attrs h2 obj \<noteq> None" by blast
  moreover from ih k(5) have "\<forall>obj. instance_attrs h obj \<noteq> None \<longrightarrow> instance_attrs h2 obj \<noteq> None"
    by blast
  ultimately show ?case by (simp add: o h')
qed

lemma getattr_dict_objs: "getattr (h\<lparr>dict_objs := x\<rparr>) obj name = getattr h obj name"
  by (auto simp: getattr_def split: option.splits)

text \<open>
  Claim C10. After the class body, let any number of options be made with
  \<^verbatim>\<open>create\<close>. For any two of them (or one taken twice) the attribute
  \<^verbatim>\<open>custom_data\<close> resolves to the dictionary of the class, the same object, so a
  key stored through the first is found through the second.
\<close>

theorem custom_data_is_shared:
  assumes "creates argss class_SettingOption = (objs, h)"
    and "o1 \<in> set objs" and "o2 \<in> set objs"
  shows "getattr h o1 ''custom_data'' = Some (DictRef 0) \<and>
         getattr h o2 ''custom_data'' = Some (DictRef 0) \<and>
         (\<exists>h'. custom_data_setitem o1 k v h = Some h' \<and> custom_data_getitem o2 k h' = Some v)"
proof -
  have e: "\<forall>obj d. instance_attrs class_SettingOption obj = Some d \<longrightarrow> d ''custom_data'' = None"
    by (simp add: class_SettingOption_def)
  note ks = creates_keeps [OF assms(1) e]
  from ks have c: "class_attrs h ''custom_data'' = Some (DictRef 0)"
    by (simp add: class_SettingOption_def)
  from ks have d: "dict_objs h 0 = Some Map.empty"
    by (simp add: class_SettingOption_def)
  have g: "getattr h obj ''custom_data'' = Some (DictRef 0)" if "obj \<in> set objs" for obj
  proof -
    from ks that obtain a where a: "instance_attrs h obj = Some a" by blast
    with ks have "a ''custom_data'' = None" by blast
    with a c show ?thesis by (simp add: getattr_def)
  qed
  have s: "custom_data_setitem o1 k v h = Some (h\<lparr>dict_objs := (dict_objs h)(0 \<mapsto> [k \<mapsto> v])\<rparr>)"
    by (simp add: custom_data_setitem_def g [OF assms(2)] d)
  have g2: "getattr (h\<lparr>dict_objs := (dict_objs h)(0 \<mapsto> [k \<mapsto> v])\<rparr>) o2 ''custom_data'' = Some (DictRef 0)"
    using g [OF assms(3)] by (simp add: getattr_dict_objs)
  have "custom_data_getitem o2 k (h\<lparr>dict_objs := (dict_objs h)(0 \<mapsto> [k \<mapsto> v])\<rparr>) = Some v"
    by (simp add: custom_data_getitem_def g2)
  with s g [OF assms(2)] g [OF assms(3)] show ?thesis by simp
qed

theorem custom_data_is_shared_witness:
  "\<exists>h'. custom_data_setitem 2 ''buckets'' (PyStr ''b1'')
        (snd (creates [\<lparr>arg_helptext = Plain (PyStr ''one''), arg_default = Plain PyNone,
                  arg_method = Method DEFINE_string, arg_required = Plain (PyBool True),
                  arg_validation = Plain PyNone, arg_show = Plain PyNone, arg_after = Callable 0,
                  arg_prompt = Callable 1\<rparr>,
                \<lparr>arg_helptext = Plain (PyStr ''two''), arg_default = Plain PyNone,
                  arg_method = Method DEFINE_string, arg_required = Plain (PyBool True),
                  arg_validation = Plain PyNone, arg_show = Plain PyNone, arg_after = Plain PyNone,
                  arg_prompt = Plain PyNone\<rparr>] class_SettingOption)) = Some h' \<and>
      custom_data_getitem 4 ''buckets'' h' = Some (PyStr ''b1'')"
proof -
  let ?a = "[\<lparr>arg_helptext = Plain (PyStr ''one''), arg_default = Plain PyNone,
                  arg_method = Method DEFINE_string, arg_required = Plain (PyBool True),
                  arg_validation = Plain PyNone, arg_show = Plain PyNone, arg_after = Callable 0,
                  arg_prompt = Callable 1\<rparr>,
                \<lparr>arg_helptext = Plain (PyStr ''two''), arg_default = Plain PyNone,
                  arg_method = Method DEFINE_string, arg_required = Plain (PyBool True),
                  arg_validation = Plain PyNone, arg_show = Plain PyNone, arg_after = Plain PyNone,
                  arg_prompt = Plain PyNone\<rparr>]"
  have f: "fst (creates ?a class_SettingOption) = [2, 4]"
    by (simp add: create_def SettingOption_new_def class_SettingOption_def Let_def setattr_def
        split: prod.splits)
  then have c: "creates ?a class_SettingOption = ([2, 4], snd (creates ?a class_SettingOption))"
    by (metis prod.collapse)
  from custom_data_is_shared [OF c, of 2 4 "''buckets''" "PyStr ''b1''"]
  show ?thesis by simp
qed

end
